theory Spec2Isabelle
  imports Main "HOL-Library.Word"
begin

unbundle bit_operations_syntax

section \<open>Machine data\<close>

type_synonym byte = "8 word"
type_synonym uint16 = "16 word"
type_synonym uint32 = "32 word"

text \<open>
  A C++ \<open>double\<close> is kept as its IEEE-754 binary64 bit pattern: bit 63 is the sign, bits
  62..52 the biased exponent, bits 51..0 the fraction. The comparisons the sources use
  (\<open>==\<close>, \<open>!=\<close>, \<open><\<close>) are defined on the pattern; rounding arithmetic and the C library
  conversions are supplied by the host (record \<open>host\<close> below).
\<close>

type_synonym double = "64 word"

definition d_mag :: "double \<Rightarrow> double" where
  "d_mag w = take_bit 63 w"

definition d_sign :: "double \<Rightarrow> bool" where
  "d_sign w = bit w 63"

definition d_is_nan :: "double \<Rightarrow> bool" where
  "d_is_nan w = (0x7FF0000000000000 < d_mag w)"

definition d_eq :: "double \<Rightarrow> double \<Rightarrow> bool" where
  "d_eq a b = (\<not> d_is_nan a \<and> \<not> d_is_nan b \<and> (a = b \<or> (d_mag a = 0 \<and> d_mag b = 0)))"

definition d_less :: "double \<Rightarrow> double \<Rightarrow> bool" where
  "d_less a b =
     (\<not> d_is_nan a \<and> \<not> d_is_nan b \<and>
      (if d_sign a
       then (if d_sign b then d_mag b < d_mag a else d_mag a \<noteq> 0 \<or> d_mag b \<noteq> 0)
       else (if d_sign b then False else d_mag a < d_mag b)))"

text \<open>\<open>d != 0.0\<close>: true for every pattern except the two zeros (a NaN differs from 0).\<close>

definition d_nonzero :: "double \<Rightarrow> bool" where
  "d_nonzero d = (\<not> d_eq d 0)"

definition d_one :: double where
  "d_one = 0x3FF0000000000000"

section \<open>Values (value.h)\<close>

datatype Type = NUMBER | STRING | BOOLEAN | NIL | ARRAY | HASH

text \<open>
  The variant of \<open>class Value\<close>. A \<open>std::map<std::string, Value>\<close> is the list of its
  entries in iteration (key) order.
\<close>

datatype Value =
    VNil
  | VNumber double
  | VString string
  | VBoolean bool
  | VArray "Value list"
  | VHash "(string \<times> Value) list"

fun getType :: "Value \<Rightarrow> Type" where
  "getType VNil = NIL"
| "getType (VNumber _) = NUMBER"
| "getType (VString _) = STRING"
| "getType (VBoolean _) = BOOLEAN"
| "getType (VArray _) = ARRAY"
| "getType (VHash _) = HASH"

text \<open>
  \<open>Value::operator==\<close>: unequal tags give false at once; arrays are compared element by
  element, hashes entry by entry of the left operand, looked up in the right one.
\<close>

fun value_eq :: "Value \<Rightarrow> Value \<Rightarrow> bool"
  and array_eq :: "Value list \<Rightarrow> Value list \<Rightarrow> bool"
  and hash_eq :: "(string \<times> Value) list \<Rightarrow> (string \<times> Value) list \<Rightarrow> bool"
where
  "value_eq a b =
     (if getType a \<noteq> getType b then False
      else (case (a, b) of
              (VNumber x, VNumber y) \<Rightarrow> d_eq x y
            | (VString s, VString t) \<Rightarrow> s = t
            | (VBoolean p, VBoolean q) \<Rightarrow> p = q
            | (VNil, _) \<Rightarrow> True
            | (VArray xs, VArray ys) \<Rightarrow>
                (if length xs \<noteq> length ys then False else array_eq xs ys)
            | (VHash h1, VHash h2) \<Rightarrow>
                (if length h1 \<noteq> length h2 then False else hash_eq h1 h2)
            | _ \<Rightarrow> False))"
| "array_eq [] ys = True"
| "array_eq (x # xs) [] = False"
| "array_eq (x # xs) (y # ys) = (if \<not> value_eq x y then False else array_eq xs ys)"
| "hash_eq [] h2 = True"
| "hash_eq ((k, v) # rest) h2 =
     (case map_of h2 k of
        None \<Rightarrow> False
      | Some w \<Rightarrow> (if \<not> value_eq v w then False else hash_eq rest h2))"

definition value_ne :: "Value \<Rightarrow> Value \<Rightarrow> bool" where
  "value_ne a b = (\<not> value_eq a b)"

section \<open>Bytecode container and writer (bytecode.h)\<close>

datatype OpCode =
    OP_NOP | OP_PUSH_NUM | OP_PUSH_STR | OP_PUSH_CONST | OP_POP
  | OP_ADD | OP_SUB | OP_MUL | OP_DIV | OP_MOD
  | OP_CALL | OP_JMP | OP_JMP_IF_FALSE | OP_JMP_IF_TRUE
  | OP_LOAD | OP_STORE | OP_RET | OP_HALT
  | OP_COMPARE_EQ | OP_COMPARE_NE | OP_COMPARE_LT | OP_COMPARE_LE
  | OP_COMPARE_GT | OP_COMPARE_GE | OP_NOT | OP_AND | OP_OR
  | OP_LOOP | OP_END_LOOP | OP_IF | OP_ELSE | OP_END_IF
  | OP_BREAK | OP_CONTINUE

fun opcode_byte :: "OpCode \<Rightarrow> byte" where
  "opcode_byte OP_NOP = 0x00"
| "opcode_byte OP_PUSH_NUM = 0x01"
| "opcode_byte OP_PUSH_STR = 0x02"
| "opcode_byte OP_PUSH_CONST = 0x03"
| "opcode_byte OP_POP = 0x04"
| "opcode_byte OP_ADD = 0x05"
| "opcode_byte OP_SUB = 0x06"
| "opcode_byte OP_MUL = 0x07"
| "opcode_byte OP_DIV = 0x08"
| "opcode_byte OP_MOD = 0x09"
| "opcode_byte OP_CALL = 0x0A"
| "opcode_byte OP_JMP = 0x0B"
| "opcode_byte OP_JMP_IF_FALSE = 0x0C"
| "opcode_byte OP_JMP_IF_TRUE = 0x0D"
| "opcode_byte OP_LOAD = 0x0E"
| "opcode_byte OP_STORE = 0x0F"
| "opcode_byte OP_RET = 0x10"
| "opcode_byte OP_HALT = 0x11"
| "opcode_byte OP_COMPARE_EQ = 0x12"
| "opcode_byte OP_COMPARE_NE = 0x13"
| "opcode_byte OP_COMPARE_LT = 0x14"
| "opcode_byte OP_COMPARE_LE = 0x15"
| "opcode_byte OP_COMPARE_GT = 0x16"
| "opcode_byte OP_COMPARE_GE = 0x17"
| "opcode_byte OP_NOT = 0x18"
| "opcode_byte OP_AND = 0x19"
| "opcode_byte OP_OR = 0x1A"
| "opcode_byte OP_LOOP = 0x1B"
| "opcode_byte OP_END_LOOP = 0x1C"
| "opcode_byte OP_IF = 0x1D"
| "opcode_byte OP_ELSE = 0x1E"
| "opcode_byte OP_END_IF = 0x1F"
| "opcode_byte OP_BREAK = 0x20"
| "opcode_byte OP_CONTINUE = 0x21"

record Bytecode =
  code :: "byte list"
  strings :: "string list"
  numbers :: "double list"
  constants :: "string list"
  functions_pool :: "string list"

definition empty_Bytecode :: Bytecode where
  "empty_Bytecode = \<lparr>code = [], strings = [], numbers = [], constants = [], functions_pool = []\<rparr>"

datatype error =
    StackUnderflow
  | DivisionByZero
  | ModuloByZero
  | NotABoolean
  | UnknownOpcode byte
  | ProgramCounterOutOfBounds
  | InvalidFormat
  | UnsupportedVersion
  | StodFailed
  | UndefinedRead

text \<open>
  \<open>BytecodeWriter\<close> holds a reference to the container; each operation returns the
  updated container. Sizes and positions are \<open>size_t\<close>, kept as \<open>nat\<close>; every
  narrowing conversion of the source is written out.
\<close>

definition writeOpCode :: "Bytecode \<Rightarrow> OpCode \<Rightarrow> Bytecode" where
  "writeOpCode bc op = bc\<lparr>code := code bc @ [opcode_byte op]\<rparr>"

definition writeByte :: "Bytecode \<Rightarrow> byte \<Rightarrow> Bytecode" where
  "writeByte bc v = bc\<lparr>code := code bc @ [v]\<rparr>"

definition writeShort :: "Bytecode \<Rightarrow> uint16 \<Rightarrow> Bytecode" where
  "writeShort bc v =
     bc\<lparr>code := code bc @ [ucast (drop_bit 8 v AND 0xFF), ucast (v AND 0xFF)]\<rparr>"

definition writeInt :: "Bytecode \<Rightarrow> uint32 \<Rightarrow> Bytecode" where
  "writeInt bc v =
     bc\<lparr>code := code bc @
        [ucast (drop_bit 24 v AND 0xFF), ucast (drop_bit 16 v AND 0xFF),
         ucast (drop_bit 8 v AND 0xFF), ucast (v AND 0xFF)]\<rparr>"

definition writeString :: "Bytecode \<Rightarrow> string \<Rightarrow> uint16 \<times> Bytecode" where
  "writeString bc str =
     (let bc' = bc\<lparr>strings := strings bc @ [str]\<rparr>
      in (of_nat (length (strings bc') - 1), bc'))"

definition writeNumber :: "Bytecode \<Rightarrow> double \<Rightarrow> uint16 \<times> Bytecode" where
  "writeNumber bc num =
     (let bc' = bc\<lparr>numbers := numbers bc @ [num]\<rparr>
      in (of_nat (length (numbers bc') - 1), bc'))"

definition writeConstant :: "Bytecode \<Rightarrow> string \<Rightarrow> uint16 \<times> Bytecode" where
  "writeConstant bc name =
     (let bc' = bc\<lparr>constants := constants bc @ [name]\<rparr>
      in (of_nat (length (constants bc') - 1), bc'))"

definition writeFunction :: "Bytecode \<Rightarrow> string \<Rightarrow> uint16 \<times> Bytecode" where
  "writeFunction bc name =
     (let bc' = bc\<lparr>functions_pool := functions_pool bc @ [name]\<rparr>
      in (of_nat (length (functions_pool bc') - 1), bc'))"

definition getPosition :: "Bytecode \<Rightarrow> nat" where
  "getPosition bc = length (code bc)"

definition writePositionPlaceholder :: "Bytecode \<Rightarrow> Bytecode" where
  "writePositionPlaceholder bc = writeInt bc 0"

text \<open>
  \<open>updatePositionPlaceholder\<close> overwrites the four bytes starting at \<open>pos\<close>. The source
  indexes the vector unchecked; a position whose four bytes are not all inside the code is
  undefined there and is an error value here.
\<close>

definition updatePositionPlaceholder :: "Bytecode \<Rightarrow> nat \<Rightarrow> nat \<Rightarrow> error + Bytecode" where
  "updatePositionPlaceholder bc pos targetPos =
     (if pos + 4 \<le> length (code bc)
      then Inr (bc\<lparr>code := (code bc)
                 [pos := of_nat (targetPos div 2 ^ 24 mod 256),
                  pos + 1 := of_nat (targetPos div 2 ^ 16 mod 256),
                  pos + 2 := of_nat (targetPos div 2 ^ 8 mod 256),
                  pos + 3 := of_nat (targetPos mod 256)]\<rparr>)
      else Inl UndefinedRead)"

section \<open>Constant pools of the generator (simple_interpreter.cpp)\<close>

text \<open>
  A \<open>std::map<std::string, uint16_t>\<close> is a partial function. The map keyed by
  \<open>double\<close> finds a key by the equivalence of its ordering (neither is less than the
  other), which is not bit equality (\<open>-0.0\<close> and \<open>0.0\<close>), so it is the list of its
  entries, searched with that equivalence.
\<close>

definition d_equiv :: "double \<Rightarrow> double \<Rightarrow> bool" where
  "d_equiv a b = (\<not> d_less a b \<and> \<not> d_less b a)"

definition number_find :: "(double \<times> uint16) list \<Rightarrow> double \<Rightarrow> uint16 option" where
  "number_find m num = map_option snd (find (\<lambda>kv. d_equiv (fst kv) num) m)"

record BytecodeGenerator =
  bytecode :: Bytecode
  stringConstants :: "string \<rightharpoonup> uint16"
  numberConstants :: "(double \<times> uint16) list"
  generalConstants :: "string \<rightharpoonup> uint16"
  functionNames :: "string \<rightharpoonup> uint16"
  loopStack :: "(nat \<times> nat) list"

definition addStringConstant :: "BytecodeGenerator \<Rightarrow> string \<Rightarrow> uint16 \<times> BytecodeGenerator" where
  "addStringConstant g str =
     (case stringConstants g str of
        Some i \<Rightarrow> (i, g)
      | None \<Rightarrow>
          (let index = of_nat (length (strings (bytecode g)))
           in (index,
               g\<lparr>bytecode := (bytecode g)\<lparr>strings := strings (bytecode g) @ [str]\<rparr>,
                 stringConstants := (stringConstants g)(str \<mapsto> index)\<rparr>)))"

definition addNumberConstant :: "BytecodeGenerator \<Rightarrow> double \<Rightarrow> uint16 \<times> BytecodeGenerator" where
  "addNumberConstant g num =
     (case number_find (numberConstants g) num of
        Some i \<Rightarrow> (i, g)
      | None \<Rightarrow>
          (let index = of_nat (length (numbers (bytecode g)))
           in (index,
               g\<lparr>bytecode := (bytecode g)\<lparr>numbers := numbers (bytecode g) @ [num]\<rparr>,
                 numberConstants := numberConstants g @ [(num, index)]\<rparr>)))"

definition addGeneralConstant :: "BytecodeGenerator \<Rightarrow> string \<Rightarrow> uint16 \<times> BytecodeGenerator" where
  "addGeneralConstant g constant =
     (case generalConstants g constant of
        Some i \<Rightarrow> (i, g)
      | None \<Rightarrow>
          (let index = of_nat (length (constants (bytecode g)))
           in (index,
               g\<lparr>bytecode := (bytecode g)\<lparr>constants := constants (bytecode g) @ [constant]\<rparr>,
                 generalConstants := (generalConstants g)(constant \<mapsto> index)\<rparr>)))"

definition addFunctionName :: "BytecodeGenerator \<Rightarrow> string \<Rightarrow> uint16 \<times> BytecodeGenerator" where
  "addFunctionName g functionName =
     (case functionNames g functionName of
        Some i \<Rightarrow> (i, g)
      | None \<Rightarrow>
          (let index = of_nat (length (functions_pool (bytecode g)))
           in (index,
               g\<lparr>bytecode := (bytecode g)\<lparr>functions_pool := functions_pool (bytecode g) @ [functionName]\<rparr>,
                 functionNames := (functionNames g)(functionName \<mapsto> index)\<rparr>)))"

text \<open>
  What \<open>generate\<close> keeps between a pool and its lookup table: the table knows exactly
  the pool's entries, each with its position.
\<close>

definition table_ok :: "(string \<rightharpoonup> uint16) \<Rightarrow> string list \<Rightarrow> bool" where
  "table_ok tbl pool =
     (\<forall>s i. tbl s = Some i \<longleftrightarrow> (unat i < length pool \<and> pool ! unat i = s))"

definition number_table_ok :: "(double \<times> uint16) list \<Rightarrow> double list \<Rightarrow> bool" where
  "number_table_ok tbl pool =
     (tbl = zip pool (map of_nat [0..<length pool]) \<and> (\<forall>k \<in> set pool. \<not> d_is_nan k))"

definition generator_ok :: "BytecodeGenerator \<Rightarrow> bool" where
  "generator_ok g =
     (table_ok (stringConstants g) (strings (bytecode g))
      \<and> number_table_ok (numberConstants g) (numbers (bytecode g))
      \<and> table_ok (generalConstants g) (constants (bytecode g))
      \<and> table_ok (functionNames g) (functions_pool (bytecode g)))"

text \<open>
  The specification's \<open>intern(pool, value) -> index\<close> (section 4.1), as a relation between
  the pool before and the index and pool after: a value already in the pool keeps the pool
  and yields the position of an equal entry, a new value is appended and yields the new last
  position.
\<close>

definition intern_spec :: "('a \<Rightarrow> 'a \<Rightarrow> bool) \<Rightarrow> 'a list \<Rightarrow> 'a \<Rightarrow> nat \<Rightarrow> 'a list \<Rightarrow> bool" where
  "intern_spec same pool v i pool' =
     (if \<exists>k \<in> set pool. same k v
      then pool' = pool \<and> i < length pool \<and> same (pool ! i) v
      else pool' = pool @ [v] \<and> i = length pool)"

text \<open>The generator as \<open>generate\<close> resets it: an empty container and empty tables.\<close>

definition initial_generator :: BytecodeGenerator where
  "initial_generator =
     \<lparr>bytecode = empty_Bytecode, stringConstants = Map.empty, numberConstants = [],
      generalConstants = Map.empty, functionNames = Map.empty, loopStack = []\<rparr>"

text \<open>
  A pool of 65536 distinct identifiers (\<open>n + 1\<close> letters \<open>a\<close> at position \<open>n\<close>),
  and the generator that has interned them one after the other, starting from the reset
  state.
\<close>

definition wide_pool :: "string list" where
  "wide_pool = map (\<lambda>n. replicate (Suc n) (CHR ''a'')) [0..<65536]"

definition intern_names :: "string list \<Rightarrow> BytecodeGenerator" where
  "intern_names names = foldl (\<lambda>g name. snd (addGeneralConstant g name)) initial_generator names"

definition wide_generator :: BytecodeGenerator where
  "wide_generator = intern_names wide_pool"

section \<open>The binary codec (bytecode.cpp)\<close>

text \<open>
  \<open>saveBytecodeToFile\<close> writes the length fields and the doubles as their object
  representation, so their byte order in the file is the byte order of the host, a
  parameter here. A file is the list of its bytes.
\<close>

datatype endianness = LittleEndian | BigEndian

fun le_bytes :: "nat \<Rightarrow> nat \<Rightarrow> byte list" where
  "le_bytes 0 n = []"
| "le_bytes (Suc k) n = of_nat (n mod 256) # le_bytes k (n div 256)"

fun le_value :: "byte list \<Rightarrow> nat" where
  "le_value [] = 0"
| "le_value (b # bs) = unat b + 256 * le_value bs"

definition raw_bytes :: "endianness \<Rightarrow> nat \<Rightarrow> nat \<Rightarrow> byte list" where
  "raw_bytes e k n = (case e of LittleEndian \<Rightarrow> le_bytes k n | BigEndian \<Rightarrow> rev (le_bytes k n))"

definition raw_value :: "endianness \<Rightarrow> byte list \<Rightarrow> nat" where
  "raw_value e bs = (case e of LittleEndian \<Rightarrow> le_value bs | BigEndian \<Rightarrow> le_value (rev bs))"

definition byte_of_char :: "char \<Rightarrow> byte" where
  "byte_of_char c = of_char c"

definition char_of_byte :: "byte \<Rightarrow> char" where
  "char_of_byte b = char_of (unat b)"

definition magic :: "byte list" where
  "magic = map byte_of_char ''SLBT''"

definition write_pool :: "endianness \<Rightarrow> string list \<Rightarrow> byte list" where
  "write_pool e pool =
     concat (map (\<lambda>str. let strSize = length str mod 2 ^ 16
                         in raw_bytes e 2 strSize @ take strSize (map byte_of_char str)) pool)"

definition saveBytecodeToFile :: "endianness \<Rightarrow> Bytecode \<Rightarrow> byte list" where
  "saveBytecodeToFile e bc =
     (let codeSize = length (code bc) mod 2 ^ 32;
          stringCount = length (strings bc) mod 2 ^ 16;
          numberCount = length (numbers bc) mod 2 ^ 16;
          constantCount = length (constants bc) mod 2 ^ 16;
          functionCount = length (functions_pool bc) mod 2 ^ 16
      in magic @ raw_bytes e 2 0x0100
         @ raw_bytes e 4 codeSize @ take codeSize (code bc)
         @ raw_bytes e 2 stringCount @ write_pool e (strings bc)
         @ raw_bytes e 2 numberCount
         @ concat (map (\<lambda>d. raw_bytes e 8 (unat d)) (take numberCount (numbers bc)))
         @ raw_bytes e 2 constantCount @ write_pool e (constants bc)
         @ raw_bytes e 2 functionCount @ write_pool e (functions_pool bc))"

text \<open>
  The input stream: the bytes not yet read and the fail flag. \<open>read\<close> of \<open>n\<close> bytes
  delivers them when they are there; a short read delivers what is left and sets the flag,
  after which every read delivers nothing. The loader never tests the flag. A buffer it
  has sized before reading (\<open>resize\<close> fills with zeros) keeps the zeros the read did not
  overwrite; a length field declared without a value and not filled by the read is
  indeterminate, an error value here.
\<close>

type_synonym ifstream = "byte list \<times> bool"

definition stream_read :: "nat \<Rightarrow> ifstream \<Rightarrow> byte list \<times> ifstream" where
  "stream_read n st =
     (case st of (rest, failed) \<Rightarrow>
        if failed then ([], st)
        else if n \<le> length rest then (take n rest, (drop n rest, False))
        else (rest, ([], True)))"

definition read_scalar :: "endianness \<Rightarrow> nat \<Rightarrow> ifstream \<Rightarrow> error + nat \<times> ifstream" where
  "read_scalar e k st =
     (case stream_read k st of (bs, st') \<Rightarrow>
        if length bs = k then Inr (raw_value e bs, st') else Inl UndefinedRead)"

definition read_buffer :: "nat \<Rightarrow> ifstream \<Rightarrow> byte list \<times> ifstream" where
  "read_buffer n st =
     (case stream_read n st of (bs, st') \<Rightarrow> (bs @ replicate (n - length bs) 0, st'))"

fun read_pool :: "endianness \<Rightarrow> nat \<Rightarrow> ifstream \<Rightarrow> error + string list \<times> ifstream" where
  "read_pool e 0 st = Inr ([], st)"
| "read_pool e (Suc k) st =
     (case read_scalar e 2 st of
        Inl err \<Rightarrow> Inl err
      | Inr (strSize, st1) \<Rightarrow>
          (case read_buffer strSize st1 of (bs, st2) \<Rightarrow>
             (case read_pool e k st2 of
                Inl err \<Rightarrow> Inl err
              | Inr (pool, st3) \<Rightarrow> Inr (map char_of_byte bs # pool, st3))))"

definition read_numbers :: "endianness \<Rightarrow> nat \<Rightarrow> ifstream \<Rightarrow> double list \<times> ifstream" where
  "read_numbers e numberCount st =
     (case read_buffer (numberCount * 8) st of (buf, st') \<Rightarrow>
        (map (\<lambda>i. of_nat (raw_value e (take 8 (drop (i * 8) buf)))) [0..<numberCount], st'))"

text \<open>Sequencing of steps that may fail: the first error ends the load.\<close>

definition and_then :: "error + 'a \<Rightarrow> ('a \<Rightarrow> error + 'b) \<Rightarrow> error + 'b" where
  "and_then r f = (case r of Inl err \<Rightarrow> Inl err | Inr x \<Rightarrow> f x)"

definition loadBytecodeFromFile :: "endianness \<Rightarrow> byte list \<Rightarrow> error + Bytecode" where
  "loadBytecodeFromFile e file =
     (let (m, st1) = stream_read 4 (file, False)
      in if takeWhile (\<lambda>b. b \<noteq> 0) m \<noteq> magic then Inl InvalidFormat
         else
           and_then (read_scalar e 2 st1) (\<lambda>(version, st2).
             if version \<noteq> 0x0100 then Inl UnsupportedVersion
             else
               and_then (read_scalar e 4 st2) (\<lambda>(codeSize, st3).
               let (code', st4) = read_buffer codeSize st3 in
               and_then (read_scalar e 2 st4) (\<lambda>(stringCount, st5).
               and_then (read_pool e stringCount st5) (\<lambda>(strings', st6).
               and_then (read_scalar e 2 st6) (\<lambda>(numberCount, st7).
               let (numbers', st8) = read_numbers e numberCount st7 in
               and_then (read_scalar e 2 st8) (\<lambda>(constantCount, st9).
               and_then (read_pool e constantCount st9) (\<lambda>(constants', st10).
               and_then (read_scalar e 2 st10) (\<lambda>(functionCount, st11).
               and_then (read_pool e functionCount st11) (\<lambda>(functions', st12).
                 Inr \<lparr>code = code', strings = strings', numbers = numbers',
                      constants = constants', functions_pool = functions'\<rparr>))))))))))"

text \<open>A container whose only string has 65536 characters.\<close>

definition long_string_container :: Bytecode where
  "long_string_container = empty_Bytecode\<lparr>strings := [replicate 65536 (CHR ''a'')]\<rparr>"

section \<open>The host: floating-point arithmetic and C library conversions\<close>

text \<open>
  The sources add, subtract, multiply and divide doubles, call \<open>fmod\<close>, \<open>std::stod\<close>
  and \<open>std::to_string\<close>, convert a size to \<open>double\<close> and print a double on a stream. What
  these return is fixed by the platform, not by this program, so the functions of the
  program take them as a parameter and every general statement holds for any host.
  \<open>h_stod\<close> is \<open>None\<close> where \<open>std::stod\<close> throws; \<open>h_clock\<close> is the text the clock
  built-in prints.
\<close>

record host =
  h_add :: "double \<Rightarrow> double \<Rightarrow> double"
  h_sub :: "double \<Rightarrow> double \<Rightarrow> double"
  h_mul :: "double \<Rightarrow> double \<Rightarrow> double"
  h_div :: "double \<Rightarrow> double \<Rightarrow> double"
  h_fmod :: "double \<Rightarrow> double \<Rightarrow> double"
  h_of_size :: "nat \<Rightarrow> double"
  h_stod :: "string \<Rightarrow> double option"
  h_to_string :: "double \<Rightarrow> string"
  h_show :: "double \<Rightarrow> string"
  h_clock :: string

section \<open>Conversions of values (value.h)\<close>

definition asBoolean :: "Value \<Rightarrow> error + bool" where
  "asBoolean v = (case v of VBoolean b \<Rightarrow> Inr b | _ \<Rightarrow> Inl NotABoolean)"

fun toString :: "host \<Rightarrow> Value \<Rightarrow> string"
  and array_toString :: "host \<Rightarrow> nat \<Rightarrow> Value list \<Rightarrow> string"
  and hash_toString :: "host \<Rightarrow> nat \<Rightarrow> (string \<times> Value) list \<Rightarrow> string"
where
  "toString h (VNumber d) = h_to_string h d"
| "toString h (VString s) = s"
| "toString h (VBoolean b) = (if b then ''true'' else ''false'')"
| "toString h VNil = ''nil''"
| "toString h (VArray xs) = ''['' @ array_toString h 0 xs @ '']''"
| "toString h (VHash m) = ''{'' @ hash_toString h 0 m @ ''}''"
| "array_toString h i [] = []"
| "array_toString h i (x # xs) =
     (if i > 0 then '', '' else []) @ toString h x @ array_toString h (i + 1) xs"
| "hash_toString h i [] = []"
| "hash_toString h i ((k, v) # rest) =
     (if i > 0 then '', '' else []) @ (k @ '': '' @ toString h v) @ hash_toString h (i + 1) rest"

fun toNumber :: "host \<Rightarrow> Value \<Rightarrow> double" where
  "toNumber h (VNumber d) = d"
| "toNumber h (VString s) = (case h_stod h s of Some d \<Rightarrow> d | None \<Rightarrow> 0)"
| "toNumber h (VBoolean b) = (if b then d_one else 0)"
| "toNumber h VNil = 0"
| "toNumber h (VArray xs) = h_of_size h (length xs)"
| "toNumber h (VHash m) = h_of_size h (length m)"

fun toBoolean :: "Value \<Rightarrow> bool" where
  "toBoolean (VNumber d) = d_nonzero d"
| "toBoolean (VString s) = (s \<noteq> [])"
| "toBoolean (VBoolean b) = b"
| "toBoolean VNil = False"
| "toBoolean (VArray xs) = (xs \<noteq> [])"
| "toBoolean (VHash m) = (m \<noteq> [])"

section \<open>The virtual machine (simple_interpreter.cpp)\<close>

text \<open>
  The state of \<open>BytecodeVM\<close>, with the three standard streams its built-ins use. The
  stack is the \<open>std::vector\<close>: its top is the last element. The periodic call of the
  collector is left out: its engine is not part of the sources and it returns nothing the
  machine reads.
\<close>

record BytecodeVM =
  stack :: "Value list"
  variables :: "string \<rightharpoonup> Value"
  programCounter :: nat
  stdout :: string
  stderr :: string
  stdin :: string

definition isspace :: "char \<Rightarrow> bool" where
  "isspace c = (c \<in> set [CHR '' '', CHR 0x09, CHR 0x0A, CHR 0x0B, CHR 0x0C, CHR 0x0D])"

definition print_args :: "string list \<Rightarrow> BytecodeVM \<Rightarrow> error + BytecodeVM" where
  "print_args args vm = Inr (vm\<lparr>stdout := stdout vm @ concat args @ [CHR 0x0A]\<rparr>)"

definition read_token :: "string list \<Rightarrow> BytecodeVM \<Rightarrow> error + BytecodeVM" where
  "read_token args vm =
     (let rest = dropWhile isspace (stdin vm);
          input = takeWhile (\<lambda>c. \<not> isspace c) rest
      in Inr (vm\<lparr>stdin := dropWhile (\<lambda>c. \<not> isspace c) rest, stdout := stdout vm @ input\<rparr>))"

definition read_line :: "string list \<Rightarrow> BytecodeVM \<Rightarrow> error + BytecodeVM" where
  "read_line args vm =
     (let input = takeWhile (\<lambda>c. c \<noteq> CHR 0x0A) (stdin vm)
      in Inr (vm\<lparr>stdin := drop (length input + 1) (stdin vm), stdout := stdout vm @ input\<rparr>))"

definition time_now :: "host \<Rightarrow> string list \<Rightarrow> BytecodeVM \<Rightarrow> error + BytecodeVM" where
  "time_now h args vm = Inr (vm\<lparr>stdout := stdout vm @ h_clock h\<rparr>)"

definition math_builtin ::
  "host \<Rightarrow> (double \<Rightarrow> double \<Rightarrow> string) \<Rightarrow> string list \<Rightarrow> BytecodeVM \<Rightarrow> error + BytecodeVM" where
  "math_builtin h result args vm =
     (if length args \<ge> 2
      then (case h_stod h (args ! 0) of
              None \<Rightarrow> Inl StodFailed
            | Some a \<Rightarrow>
                (case h_stod h (args ! 1) of
                   None \<Rightarrow> Inl StodFailed
                 | Some b \<Rightarrow> Inr (vm\<lparr>stdout := stdout vm @ result a b\<rparr>)))
      else Inr vm)"

text \<open>The table \<open>initBaselib\<close> fills: the ten registered names and what each does.\<close>

definition initBaselib ::
  "host \<Rightarrow> string \<rightharpoonup> (string list \<Rightarrow> BytecodeVM \<Rightarrow> error + BytecodeVM)" where
  "initBaselib h =
     [''System.Output.Print'' \<mapsto> print_args,
      ''System.Output.Println'' \<mapsto> print_args,
      ''System.Input.Read'' \<mapsto> read_token,
      ''System.Input.ReadLine'' \<mapsto> read_line,
      ''System.Time.Now'' \<mapsto> time_now h,
      ''System.Math.Add'' \<mapsto> math_builtin h (\<lambda>a b. h_show h (h_add h a b)),
      ''System.Math.Subtract'' \<mapsto> math_builtin h (\<lambda>a b. h_show h (h_sub h a b)),
      ''System.Math.Multiply'' \<mapsto> math_builtin h (\<lambda>a b. h_show h (h_mul h a b)),
      ''System.Math.Divide'' \<mapsto>
         math_builtin h (\<lambda>a b. if d_nonzero b then h_show h (h_div h a b)
                                else ''Error: Division by zero''),
      ''System.Math.Modulo'' \<mapsto>
         math_builtin h (\<lambda>a b. if d_nonzero b then h_show h (h_fmod h a b)
                                else ''Error: Modulo by zero'')]"

definition pop :: "BytecodeVM \<Rightarrow> error + Value \<times> BytecodeVM" where
  "pop vm =
     (if stack vm = [] then Inl StackUnderflow
      else Inr (last (stack vm), vm\<lparr>stack := butlast (stack vm)\<rparr>))"

definition push :: "BytecodeVM \<Rightarrow> Value \<Rightarrow> BytecodeVM" where
  "push vm v = vm\<lparr>stack := stack vm @ [v]\<rparr>"

text \<open>
  The operands of an instruction are read from the code vector without a bounds check;
  an operand that reaches past the end of the code is undefined in the source and an error
  value here.
\<close>

definition operand16 :: "Bytecode \<Rightarrow> nat \<Rightarrow> error + uint16" where
  "operand16 bc pc =
     (if pc + 1 < length (code bc)
      then Inr (push_bit 8 (ucast (code bc ! pc)) OR ucast (code bc ! (pc + 1)))
      else Inl UndefinedRead)"

definition operand32 :: "Bytecode \<Rightarrow> nat \<Rightarrow> error + uint32" where
  "operand32 bc pc =
     (if pc + 3 < length (code bc)
      then Inr (push_bit 24 (ucast (code bc ! pc)) OR push_bit 16 (ucast (code bc ! (pc + 1)))
                OR push_bit 8 (ucast (code bc ! (pc + 2))) OR ucast (code bc ! (pc + 3)))
      else Inl UndefinedRead)"

definition operand8 :: "Bytecode \<Rightarrow> nat \<Rightarrow> error + byte" where
  "operand8 bc pc = (if pc < length (code bc) then Inr (code bc ! pc) else Inl UndefinedRead)"

text \<open>The cases of the \<open>switch\<close> in \<open>executeInstruction\<close>, entered after the opcode byte
  has been read and the program counter advanced past it.\<close>

definition exec_PUSH_NUM :: "Bytecode \<Rightarrow> BytecodeVM \<Rightarrow> error + BytecodeVM" where
  "exec_PUSH_NUM bc vm =
     (case operand16 bc (programCounter vm) of
        Inl e \<Rightarrow> Inl e
      | Inr index \<Rightarrow>
          (let vm' = vm\<lparr>programCounter := programCounter vm + 2\<rparr>
           in if unat index < length (numbers bc)
              then Inr (push vm' (VNumber (numbers bc ! unat index)))
              else Inr vm'))"

definition exec_PUSH_STR :: "Bytecode \<Rightarrow> BytecodeVM \<Rightarrow> error + BytecodeVM" where
  "exec_PUSH_STR bc vm =
     (case operand16 bc (programCounter vm) of
        Inl e \<Rightarrow> Inl e
      | Inr index \<Rightarrow>
          (let vm' = vm\<lparr>programCounter := programCounter vm + 2\<rparr>
           in if unat index < length (strings bc)
              then Inr (push vm' (VString (strings bc ! unat index)))
              else Inr vm'))"

definition exec_PUSH_CONST :: "Bytecode \<Rightarrow> BytecodeVM \<Rightarrow> error + BytecodeVM" where
  "exec_PUSH_CONST bc vm =
     (case operand16 bc (programCounter vm) of
        Inl e \<Rightarrow> Inl e
      | Inr index \<Rightarrow>
          (let vm' = vm\<lparr>programCounter := programCounter vm + 2\<rparr>
           in if unat index < length (constants bc)
              then Inr (push vm' (VString (constants bc ! unat index)))
              else Inr vm'))"

definition exec_POP :: "BytecodeVM \<Rightarrow> error + BytecodeVM" where
  "exec_POP vm = (case pop vm of Inl e \<Rightarrow> Inl e | Inr (v, vm') \<Rightarrow> Inr vm')"

text \<open>Two pops, the right operand \<open>b\<close> first, then the body of the case.\<close>

definition pop2 ::
  "BytecodeVM \<Rightarrow> (Value \<Rightarrow> Value \<Rightarrow> BytecodeVM \<Rightarrow> error + BytecodeVM) \<Rightarrow> error + BytecodeVM" where
  "pop2 vm body =
     (case pop vm of
        Inl e \<Rightarrow> Inl e
      | Inr (b, vm1) \<Rightarrow>
          (case pop vm1 of
             Inl e \<Rightarrow> Inl e
           | Inr (a, vm2) \<Rightarrow> body a b vm2))"

definition exec_ADD :: "host \<Rightarrow> BytecodeVM \<Rightarrow> error + BytecodeVM" where
  "exec_ADD h vm =
     pop2 vm (\<lambda>a b vm'.
       if getType a = STRING \<or> getType b = STRING
       then Inr (push vm' (VString (toString h a @ toString h b)))
       else Inr (push vm' (VNumber (h_add h (toNumber h a) (toNumber h b)))))"

definition exec_SUB :: "host \<Rightarrow> BytecodeVM \<Rightarrow> error + BytecodeVM" where
  "exec_SUB h vm =
     pop2 vm (\<lambda>a b vm'. Inr (push vm' (VNumber (h_sub h (toNumber h a) (toNumber h b)))))"

definition exec_MUL :: "host \<Rightarrow> BytecodeVM \<Rightarrow> error + BytecodeVM" where
  "exec_MUL h vm =
     pop2 vm (\<lambda>a b vm'. Inr (push vm' (VNumber (h_mul h (toNumber h a) (toNumber h b)))))"

definition exec_DIV :: "host \<Rightarrow> BytecodeVM \<Rightarrow> error + BytecodeVM" where
  "exec_DIV h vm =
     pop2 vm (\<lambda>a b vm'.
       let divisor = toNumber h b
       in if d_nonzero divisor
          then Inr (push vm' (VNumber (h_div h (toNumber h a) divisor)))
          else Inl DivisionByZero)"

definition exec_MOD :: "host \<Rightarrow> BytecodeVM \<Rightarrow> error + BytecodeVM" where
  "exec_MOD h vm =
     pop2 vm (\<lambda>a b vm'.
       let divisor = toNumber h b
       in if d_nonzero divisor
          then Inr (push vm' (VNumber (h_fmod h (toNumber h a) divisor)))
          else Inl ModuloByZero)"

definition exec_CALL :: "host \<Rightarrow> Bytecode \<Rightarrow> BytecodeVM \<Rightarrow> error + BytecodeVM" where
  "exec_CALL h bc vm =
     (case operand16 bc (programCounter vm) of
        Inl e \<Rightarrow> Inl e
      | Inr funcIndex \<Rightarrow>
          (case operand8 bc (programCounter vm + 2) of
             Inl e \<Rightarrow> Inl e
           | Inr argCount \<Rightarrow>
               (let vm' = vm\<lparr>programCounter := programCounter vm + 3\<rparr>
                in if unat funcIndex < length (functions_pool bc)
                   then (let funcName = functions_pool bc ! unat funcIndex
                         in if unat argCount > length (stack vm') then Inl UndefinedRead
                            else (let args = map (toString h)
                                               (drop (length (stack vm') - unat argCount) (stack vm'));
                                      vm'' = vm'\<lparr>stack := take (length (stack vm') - unat argCount)
                                                               (stack vm')\<rparr>
                                  in case initBaselib h funcName of
                                       Some f \<Rightarrow> f args vm''
                                     | None \<Rightarrow>
                                         Inr (vm''\<lparr>stderr := stderr vm'' @ ''Error: Unknown function ''
                                                      @ funcName @ [CHR 0x0A]\<rparr>)))
                   else Inr vm')))"

definition exec_JMP :: "Bytecode \<Rightarrow> BytecodeVM \<Rightarrow> error + BytecodeVM" where
  "exec_JMP bc vm =
     (case operand32 bc (programCounter vm) of
        Inl e \<Rightarrow> Inl e
      | Inr target \<Rightarrow> Inr (vm\<lparr>programCounter := unat target\<rparr>))"

definition exec_JMP_IF_FALSE :: "Bytecode \<Rightarrow> BytecodeVM \<Rightarrow> error + BytecodeVM" where
  "exec_JMP_IF_FALSE bc vm =
     (case operand32 bc (programCounter vm) of
        Inl e \<Rightarrow> Inl e
      | Inr target \<Rightarrow>
          (case pop (vm\<lparr>programCounter := programCounter vm + 4\<rparr>) of
             Inl e \<Rightarrow> Inl e
           | Inr (condition, vm') \<Rightarrow>
               (case asBoolean condition of
                  Inl e \<Rightarrow> Inl e
                | Inr c \<Rightarrow> if \<not> c then Inr (vm'\<lparr>programCounter := unat target\<rparr>) else Inr vm')))"

definition exec_JMP_IF_TRUE :: "Bytecode \<Rightarrow> BytecodeVM \<Rightarrow> error + BytecodeVM" where
  "exec_JMP_IF_TRUE bc vm =
     (case operand32 bc (programCounter vm) of
        Inl e \<Rightarrow> Inl e
      | Inr target \<Rightarrow>
          (case pop (vm\<lparr>programCounter := programCounter vm + 4\<rparr>) of
             Inl e \<Rightarrow> Inl e
           | Inr (condition, vm') \<Rightarrow>
               (case asBoolean condition of
                  Inl e \<Rightarrow> Inl e
                | Inr c \<Rightarrow> if c then Inr (vm'\<lparr>programCounter := unat target\<rparr>) else Inr vm')))"

definition exec_LOAD :: "Bytecode \<Rightarrow> BytecodeVM \<Rightarrow> error + BytecodeVM" where
  "exec_LOAD bc vm =
     (case operand16 bc (programCounter vm) of
        Inl e \<Rightarrow> Inl e
      | Inr varIndex \<Rightarrow>
          (let vm' = vm\<lparr>programCounter := programCounter vm + 2\<rparr>
           in if unat varIndex < length (constants bc)
              then (let varName = constants bc ! unat varIndex
                    in case variables vm' varName of
                         Some v \<Rightarrow> Inr (push vm' v)
                       | None \<Rightarrow> Inr (push vm' VNil))
              else Inr vm'))"

definition exec_STORE :: "Bytecode \<Rightarrow> BytecodeVM \<Rightarrow> error + BytecodeVM" where
  "exec_STORE bc vm =
     (case operand16 bc (programCounter vm) of
        Inl e \<Rightarrow> Inl e
      | Inr varIndex \<Rightarrow>
          (let vm' = vm\<lparr>programCounter := programCounter vm + 2\<rparr>
           in if unat varIndex < length (constants bc)
              then (let varName = constants bc ! unat varIndex
                    in case pop vm' of
                         Inl e \<Rightarrow> Inl e
                       | Inr (v, vm'') \<Rightarrow> Inr (vm''\<lparr>variables := (variables vm'')(varName \<mapsto> v)\<rparr>))
              else Inr vm'))"

definition exec_HALT :: "Bytecode \<Rightarrow> BytecodeVM \<Rightarrow> error + BytecodeVM" where
  "exec_HALT bc vm = Inr (vm\<lparr>programCounter := length (code bc) mod 2 ^ 32\<rparr>)"

definition executeInstruction :: "host \<Rightarrow> Bytecode \<Rightarrow> BytecodeVM \<Rightarrow> error + BytecodeVM" where
  "executeInstruction h bc vm =
     (if programCounter vm \<ge> length (code bc) then Inl ProgramCounterOutOfBounds
      else
        (let op = code bc ! programCounter vm;
             vm1 = vm\<lparr>programCounter := programCounter vm + 1\<rparr>
         in if op = opcode_byte OP_NOP then Inr vm1
            else if op = opcode_byte OP_PUSH_NUM then exec_PUSH_NUM bc vm1
            else if op = opcode_byte OP_PUSH_STR then exec_PUSH_STR bc vm1
            else if op = opcode_byte OP_PUSH_CONST then exec_PUSH_CONST bc vm1
            else if op = opcode_byte OP_POP then exec_POP vm1
            else if op = opcode_byte OP_ADD then exec_ADD h vm1
            else if op = opcode_byte OP_SUB then exec_SUB h vm1
            else if op = opcode_byte OP_MUL then exec_MUL h vm1
            else if op = opcode_byte OP_DIV then exec_DIV h vm1
            else if op = opcode_byte OP_MOD then exec_MOD h vm1
            else if op = opcode_byte OP_CALL then exec_CALL h bc vm1
            else if op = opcode_byte OP_JMP then exec_JMP bc vm1
            else if op = opcode_byte OP_JMP_IF_FALSE then exec_JMP_IF_FALSE bc vm1
            else if op = opcode_byte OP_JMP_IF_TRUE then exec_JMP_IF_TRUE bc vm1
            else if op = opcode_byte OP_LOAD then exec_LOAD bc vm1
            else if op = opcode_byte OP_STORE then exec_STORE bc vm1
            else if op = opcode_byte OP_RET then Inr vm1
            else if op = opcode_byte OP_HALT then exec_HALT bc vm1
            else Inl (UnknownOpcode op)))"

text \<open>
  The loop of \<open>execute\<close>. It need not end (a jump to itself), so it runs on fuel, one unit
  per instruction: \<open>None\<close> is out of fuel, \<open>Some (Inl e)\<close> the exception that left the loop,
  \<open>Some (Inr vm)\<close> the machine after the loop. The error value stops the loop as the
  exception does: no later instruction runs.
\<close>

fun run :: "host \<Rightarrow> Bytecode \<Rightarrow> nat \<Rightarrow> BytecodeVM \<Rightarrow> (error + BytecodeVM) option" where
  "run h bc 0 vm = (if programCounter vm < length (code bc) then None else Some (Inr vm))"
| "run h bc (Suc n) vm =
     (if programCounter vm < length (code bc)
      then (case executeInstruction h bc vm of
              Inl e \<Rightarrow> Some (Inl e)
            | Inr vm' \<Rightarrow> run h bc n vm')
      else Some (Inr vm))"

definition initial_vm :: "string \<Rightarrow> BytecodeVM" where
  "initial_vm input =
     \<lparr>stack = [], variables = Map.empty, programCounter = 0,
      stdout = [], stderr = [], stdin = input\<rparr>"

definition execute :: "host \<Rightarrow> Bytecode \<Rightarrow> string \<Rightarrow> nat \<Rightarrow> (error + BytecodeVM) option" where
  "execute h bc input fuel = run h bc fuel (initial_vm input)"

section \<open>Garbage-collected values (gc_value.h)\<close>

text \<open>
  An object is known to the collector by its address. The reference graph is the state
  behind the interface of \<open>slime_gc.h\<close>.
\<close>

type_synonym addr = nat

record GarbageCollector =
  objects :: "addr set"
  references :: "(addr \<times> addr) set"
  roots :: "addr set"

text \<open>
  Modelled from the spec: the engine behind \<open>slime_gc.h\<close> (the bodies of
  \<open>slime_gc_add_reference\<close> and \<open>slime_gc_clear_references\<close>) is not among the
  sources. Following section 4.5, \<open>addReference(from, to)\<close> adds the edge "\<open>from\<close> holds a
  reference to \<open>to\<close>" to the directed adjacency relation, and \<open>clearReferences(obj)\<close>
  removes the edges that start at \<open>obj\<close>.
\<close>

definition slime_gc_add_reference :: "GarbageCollector \<Rightarrow> addr \<Rightarrow> addr \<Rightarrow> GarbageCollector" where
  "slime_gc_add_reference gc from to = gc\<lparr>references := insert (from, to) (references gc)\<rparr>"

definition slime_gc_clear_references :: "GarbageCollector \<Rightarrow> addr \<Rightarrow> GarbageCollector" where
  "slime_gc_clear_references gc obj =
     gc\<lparr>references := {(a, b). (a, b) \<in> references gc \<and> a \<noteq> obj}\<rparr>"

definition empty_collector :: GarbageCollector where
  "empty_collector = \<lparr>objects = {}, references = {}, roots = {}\<rparr>"

text \<open>A \<open>GCValue\<close> object: the address the collector knows it by, and the \<open>Value\<close> it is.\<close>

record GCValue =
  address :: addr
  held :: Value

definition addAllReferences :: "GarbageCollector \<Rightarrow> GCValue \<Rightarrow> GCValue \<Rightarrow> GarbageCollector" where
  "addAllReferences gc this other =
     (let gc' = slime_gc_add_reference gc (address this) (address other)
      in if getType (held other) = ARRAY then gc'
         else if getType (held other) = HASH then gc'
         else gc')"

text \<open>\<open>GCValue::operator=(const GCValue&)\<close>.\<close>

definition gc_assign ::
  "GarbageCollector \<Rightarrow> GCValue \<Rightarrow> GCValue \<Rightarrow> GCValue \<times> GarbageCollector" where
  "gc_assign gc this other =
     (if address this \<noteq> address other
      then (this\<lparr>held := held other\<rparr>,
            addAllReferences (slime_gc_clear_references gc (address this)) this other)
      else (this, gc))"

text \<open>\<open>GCValue::push\<close>: the array receives a copy of the item, the graph one edge.\<close>

definition gc_push ::
  "GarbageCollector \<Rightarrow> GCValue \<Rightarrow> GCValue \<Rightarrow> GCValue \<times> GarbageCollector" where
  "gc_push gc this item =
     (case held this of
        VArray array \<Rightarrow>
          (this\<lparr>held := VArray (array @ [held item])\<rparr>,
           slime_gc_add_reference gc (address this) (address item))
      | _ \<Rightarrow> (this, gc))"

text \<open>
  \<open>hash[key] = value\<close> on the \<open>std::map\<close>: the entry of an existing key is overwritten,
  a new key is inserted at its place in the order of the keys (bytewise lexicographic).
\<close>

fun string_less :: "string \<Rightarrow> string \<Rightarrow> bool" where
  "string_less [] [] = False"
| "string_less [] (d # ds) = True"
| "string_less (c # cs) [] = False"
| "string_less (c # cs) (d # ds) =
     ((of_char c :: nat) < of_char d \<or> (c = d \<and> string_less cs ds))"

fun hash_assign :: "string \<Rightarrow> Value \<Rightarrow> (string \<times> Value) list \<Rightarrow> (string \<times> Value) list" where
  "hash_assign k v [] = [(k, v)]"
| "hash_assign k v ((k', v') # m) =
     (if k = k' then (k, v) # m
      else if string_less k k' then (k, v) # (k', v') # m
      else (k', v') # hash_assign k v m)"

text \<open>\<open>GCValue::set\<close>.\<close>

definition gc_set ::
  "GarbageCollector \<Rightarrow> GCValue \<Rightarrow> string \<Rightarrow> GCValue \<Rightarrow> GCValue \<times> GarbageCollector" where
  "gc_set gc this key v =
     (case held this of
        VHash hash \<Rightarrow>
          (this\<lparr>held := VHash (hash_assign key (held v) hash)\<rparr>,
           slime_gc_add_reference gc (address this) (address v))
      | _ \<Rightarrow> (this, gc))"

text \<open>
  An empty array at address 1, an empty hash at address 3, and at address 2 an array that
  holds an array that holds the number 1.
\<close>

definition outer_array :: GCValue where
  "outer_array = \<lparr>address = 1, held = VArray []\<rparr>"

definition outer_hash :: GCValue where
  "outer_hash = \<lparr>address = 3, held = VHash []\<rparr>"

definition nested_item :: GCValue where
  "nested_item = \<lparr>address = 2, held = VArray [VArray [VNumber d_one]]\<rparr>"

section \<open>The code generator (simple_interpreter.cpp)\<close>

datatype NodeType =
    NODE_PROGRAM | NODE_STATEMENT | NODE_CALL | NODE_STRING_LITERAL | NODE_NUMBER_LITERAL
  | NODE_IDENTIFIER | NODE_DIRECTIVE | NODE_EXPRESSION | NODE_OPERATOR | NODE_IF_STATEMENT
  | NODE_WHILE_STATEMENT | NODE_FOR_STATEMENT | NODE_BREAK_STATEMENT | NODE_CONTINUE_STATEMENT
  | NODE_COMPARISON | NODE_LOGICAL_OPERATOR | NODE_ASSIGN | NODE_BLOCK

datatype ASTNode = ASTNode NodeType string "ASTNode list"

text \<open>
  A step of the generator takes the generator and returns it updated, or the error of a
  \<open>std::stod\<close> that threw. The functions of the generator call \<open>generateNode\<close> on
  children of their node; here each of them receives, next to the fields of its node, the
  list \<open>ks\<close> of the steps \<open>generateNode\<close> performs for the children, in order, so
  that \<open>generateNode(node->getChild(i))\<close> is the \<open>i\<close>-th step of \<open>ks\<close>.
\<close>

type_synonym gen_step = "BytecodeGenerator \<Rightarrow> error + BytecodeGenerator"

definition emit :: "(Bytecode \<Rightarrow> Bytecode) \<Rightarrow> BytecodeGenerator \<Rightarrow> BytecodeGenerator" where
  "emit w g = g\<lparr>bytecode := w (bytecode g)\<rparr>"

definition emit_update :: "nat \<Rightarrow> nat \<Rightarrow> gen_step" where
  "emit_update pos targetPos g =
     and_then (updatePositionPlaceholder (bytecode g) pos targetPos)
       (\<lambda>bc. Inr (g\<lparr>bytecode := bc\<rparr>))"

fun generateNodes :: "gen_step list \<Rightarrow> gen_step" where
  "generateNodes [] g = Inr g"
| "generateNodes (k # ks) g = and_then (k g) (generateNodes ks)"

definition generateStatement :: "string \<Rightarrow> gen_step list \<Rightarrow> gen_step" where
  "generateStatement v ks g =
     (if v = ''use'' then (case ks of [] \<Rightarrow> Inr g | k0 # rest \<Rightarrow> k0 g)
      else if v = ''cra'' then generateNodes (drop 1 ks) g
      else Inr g)"

definition generateIfStatement :: "gen_step list \<Rightarrow> gen_step" where
  "generateIfStatement ks g =
     (if length ks < 2 then Inr g
      else
        and_then ((ks ! 0) g) (\<lambda>g1.
        let elseJumpPos = getPosition (bytecode g1);
            g2 = emit writePositionPlaceholder (emit (\<lambda>bc. writeOpCode bc OP_JMP_IF_FALSE) g1)
        in and_then ((ks ! 1) g2) (\<lambda>g3.
           if length ks \<ge> 3
           then (let endJumpPos = getPosition (bytecode g3);
                     g4 = emit writePositionPlaceholder (emit (\<lambda>bc. writeOpCode bc OP_JMP) g3);
                     elseStartPos = getPosition (bytecode g4)
                 in and_then (emit_update elseJumpPos elseStartPos g4) (\<lambda>g5.
                    and_then ((ks ! 2) g5) (\<lambda>g6.
                    emit_update endJumpPos (getPosition (bytecode g6)) g6)))
           else emit_update elseJumpPos (getPosition (bytecode g3)) g3)))"

definition generateWhileStatement :: "gen_step list \<Rightarrow> gen_step" where
  "generateWhileStatement ks g =
     (if length ks < 2 then Inr g
      else
        (let loopStartPos = getPosition (bytecode g)
         in and_then ((ks ! 0) g) (\<lambda>g1.
            let loopEndJumpPos = getPosition (bytecode g1);
                g2 = emit writePositionPlaceholder (emit (\<lambda>bc. writeOpCode bc OP_JMP_IF_FALSE) g1);
                g3 = g2\<lparr>loopStack := loopStack g2 @ [(loopStartPos, loopEndJumpPos)]\<rparr>
            in and_then ((ks ! 1) g3) (\<lambda>g4.
               let g5 = emit (\<lambda>bc. writeInt bc (of_nat loopStartPos))
                          (emit (\<lambda>bc. writeOpCode bc OP_JMP) g4)
               in and_then (emit_update loopEndJumpPos (getPosition (bytecode g5)) g5) (\<lambda>g6.
                  Inr (g6\<lparr>loopStack := butlast (loopStack g6)\<rparr>))))))"

definition generateForStatement :: "gen_step list \<Rightarrow> gen_step" where
  "generateForStatement ks g =
     (if length ks < 4 then Inr g
      else
        and_then ((ks ! 0) g) (\<lambda>g0.
        let loopStartPos = getPosition (bytecode g0)
        in and_then ((ks ! 1) g0) (\<lambda>g1.
           let loopEndJumpPos = getPosition (bytecode g1);
               g2 = emit writePositionPlaceholder (emit (\<lambda>bc. writeOpCode bc OP_JMP_IF_FALSE) g1);
               g3 = emit writePositionPlaceholder (emit (\<lambda>bc. writeOpCode bc OP_NOP) g2);
               g4 = g3\<lparr>loopStack := loopStack g3 @ [(loopStartPos, 0)]\<rparr>
           in and_then ((ks ! 3) g4) (\<lambda>g5.
              and_then ((ks ! 2) g5) (\<lambda>g6.
              let g7 = emit (\<lambda>bc. writeInt bc (of_nat loopStartPos))
                         (emit (\<lambda>bc. writeOpCode bc OP_JMP) g6)
              in and_then (emit_update loopEndJumpPos (getPosition (bytecode g7)) g7) (\<lambda>g8.
                 Inr (g8\<lparr>loopStack := butlast (loopStack g8)\<rparr>)))))))"

definition generateBreakStatement :: gen_step where
  "generateBreakStatement g = Inr (emit (\<lambda>bc. writeOpCode bc OP_BREAK) g)"

definition generateContinueStatement :: gen_step where
  "generateContinueStatement g = Inr (emit (\<lambda>bc. writeOpCode bc OP_CONTINUE) g)"

definition generateAssignment :: "ASTNode list \<Rightarrow> gen_step list \<Rightarrow> gen_step" where
  "generateAssignment cs ks g =
     (if length ks < 2 then Inr g
      else
        and_then ((ks ! 1) g) (\<lambda>g1.
          case cs ! 0 of ASTNode left_type left_value left_children \<Rightarrow>
            if left_type = NODE_IDENTIFIER
            then (let (varIndex, g2) = addGeneralConstant g1 left_value
                  in Inr (emit (\<lambda>bc. writeShort bc varIndex)
                            (emit (\<lambda>bc. writeOpCode bc OP_STORE) g2)))
            else Inr g1))"

definition generateCall :: "string \<Rightarrow> gen_step list \<Rightarrow> gen_step" where
  "generateCall v ks g =
     and_then (generateNodes ks g) (\<lambda>g1.
       let (funcIndex, g2) = addFunctionName g1 v
       in Inr (emit (\<lambda>bc. writeByte bc (of_nat (length ks)))
                 (emit (\<lambda>bc. writeShort bc funcIndex)
                    (emit (\<lambda>bc. writeOpCode bc OP_CALL) g2))))"

definition generateExpression :: "host \<Rightarrow> NodeType \<Rightarrow> string \<Rightarrow> gen_step list \<Rightarrow> gen_step" where
  "generateExpression h t v ks g =
     (if t = NODE_NUMBER_LITERAL
      then (case h_stod h v of
              None \<Rightarrow> Inl StodFailed
            | Some value \<Rightarrow>
                (let (index, g1) = addNumberConstant g value
                 in Inr (emit (\<lambda>bc. writeShort bc index)
                           (emit (\<lambda>bc. writeOpCode bc OP_PUSH_NUM) g1))))
      else if t = NODE_STRING_LITERAL
      then (let (index, g1) = addStringConstant g v
            in Inr (emit (\<lambda>bc. writeShort bc index)
                      (emit (\<lambda>bc. writeOpCode bc OP_PUSH_STR) g1)))
      else if t = NODE_IDENTIFIER
      then (let (varIndex, g1) = addGeneralConstant g v
            in Inr (emit (\<lambda>bc. writeShort bc varIndex)
                      (emit (\<lambda>bc. writeOpCode bc OP_LOAD) g1)))
      else if t = NODE_OPERATOR
      then (if length ks \<ge> 2
            then and_then ((ks ! 0) g) (\<lambda>g1.
                 and_then ((ks ! 1) g1) (\<lambda>g2.
                   if v = ''+'' then Inr (emit (\<lambda>bc. writeOpCode bc OP_ADD) g2)
                   else if v = ''-'' then Inr (emit (\<lambda>bc. writeOpCode bc OP_SUB) g2)
                   else if v = ''*'' then Inr (emit (\<lambda>bc. writeOpCode bc OP_MUL) g2)
                   else if v = ''/'' then Inr (emit (\<lambda>bc. writeOpCode bc OP_DIV) g2)
                   else if v = ''%'' then Inr (emit (\<lambda>bc. writeOpCode bc OP_MOD) g2)
                   else Inr g2))
            else Inr g)
      else if t = NODE_EXPRESSION then generateNodes ks g
      else Inr g)"

text \<open>The \<open>switch\<close> of \<open>generateNode\<close> on the kind of the node.\<close>

definition generateNode_switch ::
  "host \<Rightarrow> NodeType \<Rightarrow> string \<Rightarrow> ASTNode list \<Rightarrow> gen_step list \<Rightarrow> gen_step" where
  "generateNode_switch h t v cs ks g =
     (if t = NODE_PROGRAM then generateNodes ks g
      else if t = NODE_STATEMENT then generateStatement v ks g
      else if t = NODE_IF_STATEMENT then generateIfStatement ks g
      else if t = NODE_WHILE_STATEMENT then generateWhileStatement ks g
      else if t = NODE_FOR_STATEMENT then generateForStatement ks g
      else if t = NODE_BREAK_STATEMENT then generateBreakStatement g
      else if t = NODE_CONTINUE_STATEMENT then generateContinueStatement g
      else if t = NODE_ASSIGN then generateAssignment cs ks g
      else if t = NODE_CALL then generateCall v ks g
      else if t = NODE_OPERATOR \<or> t = NODE_NUMBER_LITERAL \<or> t = NODE_EXPRESSION
              \<or> t = NODE_IDENTIFIER
      then generateExpression h t v ks g
      else Inr g)"

primrec generateNode :: "host \<Rightarrow> ASTNode \<Rightarrow> gen_step" where
  "generateNode h (ASTNode t v cs) = generateNode_switch h t v cs (map (generateNode h) cs)"

definition generate :: "host \<Rightarrow> ASTNode \<Rightarrow> error + Bytecode" where
  "generate h ast =
     and_then (generateNode h ast initial_generator)
       (\<lambda>g. Inr (writeOpCode (bytecode g) OP_HALT))"

text \<open>
  Example trees. \<open>break_outside_loop\<close> is a program whose only statement is a break;
  \<open>break_in_while\<close> is \<open>while (c) { break; }\<close> with the break as the body of the loop;
  \<open>scenario_A\<close> is \<open>x = 1 + 2 * 3\<close> followed by the call of the print built-in on
  \<open>x\<close>.
\<close>

definition break_outside_loop :: ASTNode where
  "break_outside_loop = ASTNode NODE_PROGRAM [] [ASTNode NODE_BREAK_STATEMENT [] []]"

definition break_in_while :: ASTNode where
  "break_in_while =
     ASTNode NODE_PROGRAM []
       [ASTNode NODE_WHILE_STATEMENT []
          [ASTNode NODE_IDENTIFIER ''c'' [], ASTNode NODE_BREAK_STATEMENT [] []]]"

definition scenario_A :: ASTNode where
  "scenario_A =
     ASTNode NODE_PROGRAM []
       [ASTNode NODE_ASSIGN []
          [ASTNode NODE_IDENTIFIER ''x'' [],
           ASTNode NODE_EXPRESSION []
             [ASTNode NODE_OPERATOR ''+''
                [ASTNode NODE_NUMBER_LITERAL ''1'' [],
                 ASTNode NODE_OPERATOR ''*''
                   [ASTNode NODE_NUMBER_LITERAL ''2'' [], ASTNode NODE_NUMBER_LITERAL ''3'' []]]]],
        ASTNode NODE_STATEMENT ''use''
          [ASTNode NODE_CALL ''System.Output.Print'' [ASTNode NODE_IDENTIFIER ''x'' []]]]"

section \<open>A host for running examples\<close>

text \<open>
  \<open>natural_host\<close> is used to run concrete programs. On doubles that hold a natural number
  below \<open>2^53\<close> it returns what IEEE-754 binary64 arithmetic returns whenever the exact
  result is such a number again, \<open>h_stod\<close> reads a string of one to fifteen decimal digits,
  and \<open>h_to_string\<close> prints such a number as \<open>%f\<close> does. Outside this range it answers
  with the NaN pattern (or with \<open>None\<close>), which is not what a real platform does; no example
  below leaves the range.
\<close>

fun bitlen :: "nat \<Rightarrow> nat" where
  "bitlen n = (if n = 0 then 0 else Suc (bitlen (n div 2)))"

declare bitlen.simps [simp del]

definition double_of_nat :: "nat \<Rightarrow> double" where
  "double_of_nat n =
     (if n = 0 then 0
      else (let e = bitlen n - 1
            in of_nat ((1023 + e) * 2 ^ 52 + (n * 2 ^ (52 - e) - 2 ^ 52))))"

definition nat_of_double :: "double \<Rightarrow> nat option" where
  "nat_of_double w =
     (let E = unat (drop_bit 52 w); m = 2 ^ 52 + unat (take_bit 52 w)
      in if w = 0 then Some 0
         else if 1023 \<le> E \<and> E \<le> 1075 \<and> m mod 2 ^ (1075 - E) = 0
         then Some (m div 2 ^ (1075 - E))
         else None)"

definition quiet_nan :: double where
  "quiet_nan = 0x7FF8000000000000"

definition nat_op :: "(nat \<Rightarrow> nat \<Rightarrow> nat option) \<Rightarrow> double \<Rightarrow> double \<Rightarrow> double" where
  "nat_op f a b =
     (case (nat_of_double a, nat_of_double b) of
        (Some x, Some y) \<Rightarrow>
          (case f x y of
             Some r \<Rightarrow> if r < 2 ^ 53 then double_of_nat r else quiet_nan
           | None \<Rightarrow> quiet_nan)
      | _ \<Rightarrow> quiet_nan)"

fun decimal :: "nat \<Rightarrow> string" where
  "decimal n =
     (if n < 10 then [''0123456789'' ! n]
      else decimal (n div 10) @ [''0123456789'' ! (n mod 10)])"

declare decimal.simps [simp del]

definition isdigit :: "char \<Rightarrow> bool" where
  "isdigit c = (48 \<le> (of_char c :: nat) \<and> (of_char c :: nat) \<le> 57)"

definition natural_host :: host where
  "natural_host =
     \<lparr>h_add = nat_op (\<lambda>x y. Some (x + y)),
      h_sub = nat_op (\<lambda>x y. if y \<le> x then Some (x - y) else None),
      h_mul = nat_op (\<lambda>x y. Some (x * y)),
      h_div = nat_op (\<lambda>x y. if y \<noteq> 0 \<and> y dvd x then Some (x div y) else None),
      h_fmod = nat_op (\<lambda>x y. if y \<noteq> 0 then Some (x mod y) else None),
      h_of_size = (\<lambda>n. if n < 2 ^ 53 then double_of_nat n else quiet_nan),
      h_stod = (\<lambda>s. if s \<noteq> [] \<and> length s \<le> 15 \<and> list_all isdigit s
                     then Some (double_of_nat (foldl (\<lambda>acc c. acc * 10 + (of_char c - 48)) 0 s))
                     else None),
      h_to_string = (\<lambda>d. case nat_of_double d of
                            Some n \<Rightarrow> decimal n @ ''.000000''
                          | None \<Rightarrow> ''nan''),
      h_show = (\<lambda>d. case nat_of_double d of
                       Some n \<Rightarrow> if n < 1000000 then decimal n else ''nan''
                     | None \<Rightarrow> ''nan''),
      h_clock = ''0''\<rparr>"

section \<open>Example programs\<close>

text \<open>\<open>PUSH_NUM 5; HALT\<close> with an empty number pool.\<close>

definition bad_push :: Bytecode where
  "bad_push = empty_Bytecode\<lparr>code := [0x01, 0x00, 0x05, 0x11]\<rparr>"

text \<open>\<open>PUSH_NUM 0; JMP_IF_FALSE 8; HALT\<close> with the number 0.0 in the pool.\<close>

definition falsy_jump :: Bytecode where
  "falsy_jump =
     empty_Bytecode\<lparr>code := [0x01, 0x00, 0x00, 0x0C, 0x00, 0x00, 0x00, 0x08, 0x11],
                     numbers := [0]\<rparr>"

text \<open>\<open>PUSH_NUM 0; PUSH_NUM 1; DIV; HALT\<close> computing \<open>10 / 0\<close>, and the same shape with
  \<open>MOD\<close> computing \<open>6 % 4\<close>.\<close>

definition ten_div_zero :: Bytecode where
  "ten_div_zero =
     empty_Bytecode\<lparr>code := [0x01, 0x00, 0x00, 0x01, 0x00, 0x01, 0x08, 0x11],
                     numbers := [double_of_nat 10, 0]\<rparr>"

definition six_mod_four :: Bytecode where
  "six_mod_four =
     empty_Bytecode\<lparr>code := [0x01, 0x00, 0x00, 0x01, 0x00, 0x01, 0x09, 0x11],
                     numbers := [double_of_nat 6, double_of_nat 4]\<rparr>"

text \<open>A small container with an entry in every pool.\<close>

definition sample_container :: Bytecode where
  "sample_container =
     \<lparr>code = [0x02, 0x00, 0x00, 0x11], strings = [''hi''], numbers = [d_one],
      constants = [''x''], functions_pool = [''System.Output.Print'']\<rparr>"

text \<open>
  The instruction bytes the generator produces for \<open>scenario_A\<close>, and the whole
  container on \<open>natural_host\<close>.
\<close>

definition scenario_A_code :: "byte list" where
  "scenario_A_code =
     opcode_byte OP_PUSH_NUM # [0, 0] @ opcode_byte OP_PUSH_NUM # [0, 1]
     @ opcode_byte OP_PUSH_NUM # [0, 2] @ [opcode_byte OP_MUL, opcode_byte OP_ADD]
     @ opcode_byte OP_STORE # [0, 0] @ opcode_byte OP_LOAD # [0, 0]
     @ opcode_byte OP_CALL # [0, 0, 1] @ [opcode_byte OP_HALT]"

definition scenario_A_bytecode :: Bytecode where
  "scenario_A_bytecode =
     \<lparr>code = scenario_A_code, strings = [],
      numbers = [double_of_nat 1, double_of_nat 2, double_of_nat 3],
      constants = [''x''], functions_pool = [''System.Output.Print'']\<rparr>"

section \<open>Properties\<close>

subsection \<open>Value equality\<close>

text \<open>
  C10. Equality of values is strict on the type tag: values with different tags are never
  equal (\<open>operator==\<close> is false, \<open>operator!=\<close> is true), so the number 0, the boolean
  false, the empty string and nil are pairwise unequal, and two nil values are equal.
\<close>

theorem value_eq_type_strict:
  "(getType a \<noteq> getType b \<longrightarrow> \<not> value_eq a b \<and> value_ne a b)
   \<and> (getType a = NIL \<and> getType b = NIL \<longrightarrow> value_eq a b \<and> \<not> value_ne a b)
   \<and> value_ne (VNumber 0) (VBoolean False) \<and> value_ne (VNumber 0) (VString [])
   \<and> value_ne (VNumber 0) VNil \<and> value_ne (VBoolean False) (VString [])
   \<and> value_ne (VBoolean False) VNil \<and> value_ne (VString []) VNil"
  by (cases a; cases b) (simp_all add: value_ne_def)

theorem value_eq_type_strict_witness:
  "getType (VNumber 0) \<noteq> getType (VString []) \<and> \<not> value_eq (VNumber 0) (VString [])
   \<and> value_ne (VNumber 0) (VString [])
   \<and> getType VNil = NIL \<and> value_eq VNil VNil"
  using value_eq_type_strict [of "VNumber 0" "VString []"] value_eq_type_strict [of VNil VNil]
  by simp

subsection \<open>The writer's pool operations\<close>

lemma word16_succ_neq: "(i :: uint16) + 1 \<noteq> i"
  by simp

text \<open>
  C9, as the code has it. Each of \<open>writeString\<close>, \<open>writeNumber\<close>, \<open>writeConstant\<close> and
  \<open>writeFunction\<close> appends its argument whatever the pool holds, and returns the new
  last position reduced modulo 65536 (the result is a \<open>uint16_t\<close>). Writing the same
  value twice grows the pool by two entries and returns two different indices, the second
  being the first plus one in 16-bit arithmetic.
\<close>

theorem writer_appends_unconditionally:
  "(case writeString bc s of (i, bc1) \<Rightarrow> case writeString bc1 s of (j, bc2) \<Rightarrow>
      strings bc1 = strings bc @ [s] \<and> strings bc2 = strings bc @ [s, s]
      \<and> unat i = (length (strings bc1) - 1) mod 65536
      \<and> unat j = (length (strings bc2) - 1) mod 65536 \<and> j = i + 1 \<and> j \<noteq> i)
   \<and> (case writeNumber bc d of (i, bc1) \<Rightarrow> case writeNumber bc1 d of (j, bc2) \<Rightarrow>
      numbers bc1 = numbers bc @ [d] \<and> numbers bc2 = numbers bc @ [d, d]
      \<and> unat i = (length (numbers bc1) - 1) mod 65536
      \<and> unat j = (length (numbers bc2) - 1) mod 65536 \<and> j = i + 1 \<and> j \<noteq> i)
   \<and> (case writeConstant bc s of (i, bc1) \<Rightarrow> case writeConstant bc1 s of (j, bc2) \<Rightarrow>
      constants bc1 = constants bc @ [s] \<and> constants bc2 = constants bc @ [s, s]
      \<and> unat i = (length (constants bc1) - 1) mod 65536
      \<and> unat j = (length (constants bc2) - 1) mod 65536 \<and> j = i + 1 \<and> j \<noteq> i)
   \<and> (case writeFunction bc s of (i, bc1) \<Rightarrow> case writeFunction bc1 s of (j, bc2) \<Rightarrow>
      functions_pool bc1 = functions_pool bc @ [s] \<and> functions_pool bc2 = functions_pool bc @ [s, s]
      \<and> unat i = (length (functions_pool bc1) - 1) mod 65536
      \<and> unat j = (length (functions_pool bc2) - 1) mod 65536 \<and> j = i + 1 \<and> j \<noteq> i)"
  by (simp add: writeString_def writeNumber_def writeConstant_def writeFunction_def
      Let_def unat_of_nat word16_succ_neq)

text \<open>
  The claim as stated fails on a pool that already holds 65536 strings: the index returned
  is 0, while the new last position (pool size minus one) is 65536.
\<close>

theorem writeString_last_index_counterexample:
  "fst (writeString (empty_Bytecode\<lparr>strings := replicate 65536 []\<rparr>) []) = 0
   \<and> length (strings (snd (writeString (empty_Bytecode\<lparr>strings := replicate 65536 []\<rparr>) []))) - 1
       = 65536"
  by (simp add: writeString_def Let_def empty_Bytecode_def)

subsection \<open>Interning in the generator\<close>

lemma unat_of_nat_u16: "n < 65536 \<Longrightarrow> unat (of_nat n :: uint16) = n"
  by (simp add: unat_of_nat)

lemma table_ok_mem:
  assumes "table_ok tbl pool" "length pool \<le> 65536"
  shows "s \<in> set pool \<longleftrightarrow> tbl s \<noteq> None"
proof
  assume "s \<in> set pool"
  then obtain n where n: "n < length pool" "pool ! n = s" by (auto simp: in_set_conv_nth)
  with assms(2) have "unat (of_nat n :: uint16) = n" by (simp add: unat_of_nat_u16)
  with n assms(1) have "tbl s = Some (of_nat n)" unfolding table_ok_def by simp
  then show "tbl s \<noteq> None" by simp
next
  assume "tbl s \<noteq> None"
  then obtain i where "tbl s = Some i" by auto
  with assms(1) have "unat i < length pool \<and> pool ! unat i = s" unfolding table_ok_def by simp
  then show "s \<in> set pool" by auto
qed

lemma table_ok_step:
  assumes ok: "table_ok tbl pool" and len: "length pool < 65536" and new: "tbl s = None"
  shows "table_ok (tbl(s \<mapsto> of_nat (length pool))) (pool @ [s])"
proof -
  have u: "unat (of_nat (length pool) :: uint16) = length pool"
    using len by (simp add: unat_of_nat_u16)
  have notin: "s \<notin> set pool" using table_ok_mem [OF ok, of s] len new by simp
  show ?thesis
    unfolding table_ok_def
  proof (intro allI iffI)
    fix t and i :: uint16 assume h: "(tbl(s \<mapsto> of_nat (length pool))) t = Some i"
    show "unat i < length (pool @ [s]) \<and> (pool @ [s]) ! unat i = t"
    proof (cases "t = s")
      case True
      with h have "i = of_nat (length pool)" by simp
      with u True show ?thesis by simp
    next
      case False
      with h have "tbl t = Some i" by simp
      with ok have "unat i < length pool \<and> pool ! unat i = t" unfolding table_ok_def by simp
      then show ?thesis by (simp add: nth_append)
    qed
  next
    fix t and i :: uint16 assume h: "unat i < length (pool @ [s]) \<and> (pool @ [s]) ! unat i = t"
    show "(tbl(s \<mapsto> of_nat (length pool))) t = Some i"
    proof (cases "unat i < length pool")
      case True
      with h have p: "pool ! unat i = t" by (simp add: nth_append)
      with True have "t \<in> set pool" by auto
      with notin have "t \<noteq> s" by auto
      moreover from ok True p have "tbl t = Some i" unfolding table_ok_def by simp
      ultimately show ?thesis by simp
    next
      case False
      with h have e: "unat i = length pool" by simp
      with h have "t = s" by simp
      moreover from e u have "i = of_nat (length pool)"
        by (simp add: word_unat_eq_iff)
      ultimately show ?thesis by simp
    qed
  qed
qed

lemma d_split: "a = b \<longleftrightarrow> (d_sign a = d_sign b \<and> d_mag a = d_mag b)"
proof
  assume "a = b" then show "d_sign a = d_sign b \<and> d_mag a = d_mag b" by simp
next
  assume h: "d_sign a = d_sign b \<and> d_mag a = d_mag b"
  show "a = b"
  proof (rule bit_word_eqI)
    fix n assume n: "n < LENGTH(64)"
    show "bit a n = bit b n"
    proof (cases "n = 63")
      case True with h show ?thesis by (simp add: d_sign_def)
    next
      case False
      with n have lt: "n < 63" by simp
      from h have "bit (take_bit 63 a) n = bit (take_bit 63 b) n" by (simp add: d_mag_def)
      with lt show ?thesis by (simp add: bit_take_bit_iff)
    qed
  qed
qed

lemma d_equiv_eq: "\<not> d_is_nan a \<Longrightarrow> \<not> d_is_nan b \<Longrightarrow> d_equiv a b = d_eq a b"
  unfolding d_equiv_def d_less_def d_eq_def
  using d_split [of a b] by auto


lemma addStringConstant_interns:
  assumes ok: "table_ok (stringConstants g) (strings (bytecode g))"
    and len: "length (strings (bytecode g)) < 65536"
  shows "intern_spec (=) (strings (bytecode g)) str
           (unat (fst (addStringConstant g str))) (strings (bytecode (snd (addStringConstant g str))))
         \<and> addStringConstant (snd (addStringConstant g str)) str = addStringConstant g str
         \<and> table_ok (stringConstants (snd (addStringConstant g str)))
                     (strings (bytecode (snd (addStringConstant g str))))"
proof (cases "stringConstants g str")
  case None
  then have notin: "str \<notin> set (strings (bytecode g))"
    using table_ok_mem [OF ok, of str] len by simp
  from None notin len table_ok_step [OF ok len None] show ?thesis
    by (simp add: addStringConstant_def Let_def intern_spec_def unat_of_nat_u16)
next
  case (Some i)
  with ok have i: "unat i < length (strings (bytecode g))" "strings (bytecode g) ! unat i = str"
    unfolding table_ok_def by simp_all
  then have "str \<in> set (strings (bytecode g))" by auto
  with Some i ok show ?thesis
    by (auto simp: addStringConstant_def intern_spec_def)
qed

lemma addGeneralConstant_interns:
  assumes ok: "table_ok (generalConstants g) (constants (bytecode g))"
    and len: "length (constants (bytecode g)) < 65536"
  shows "intern_spec (=) (constants (bytecode g)) str
           (unat (fst (addGeneralConstant g str))) (constants (bytecode (snd (addGeneralConstant g str))))
         \<and> addGeneralConstant (snd (addGeneralConstant g str)) str = addGeneralConstant g str
         \<and> table_ok (generalConstants (snd (addGeneralConstant g str)))
                     (constants (bytecode (snd (addGeneralConstant g str))))"
proof (cases "generalConstants g str")
  case None
  then have notin: "str \<notin> set (constants (bytecode g))"
    using table_ok_mem [OF ok, of str] len by simp
  from None notin len table_ok_step [OF ok len None] show ?thesis
    by (simp add: addGeneralConstant_def Let_def intern_spec_def unat_of_nat_u16)
next
  case (Some i)
  with ok have i: "unat i < length (constants (bytecode g))" "constants (bytecode g) ! unat i = str"
    unfolding table_ok_def by simp_all
  then have "str \<in> set (constants (bytecode g))" by auto
  with Some i ok show ?thesis
    by (auto simp: addGeneralConstant_def intern_spec_def)
qed

lemma addFunctionName_interns:
  assumes ok: "table_ok (functionNames g) (functions_pool (bytecode g))"
    and len: "length (functions_pool (bytecode g)) < 65536"
  shows "intern_spec (=) (functions_pool (bytecode g)) str
           (unat (fst (addFunctionName g str))) (functions_pool (bytecode (snd (addFunctionName g str))))
         \<and> addFunctionName (snd (addFunctionName g str)) str = addFunctionName g str
         \<and> table_ok (functionNames (snd (addFunctionName g str)))
                     (functions_pool (bytecode (snd (addFunctionName g str))))"
proof (cases "functionNames g str")
  case None
  then have notin: "str \<notin> set (functions_pool (bytecode g))"
    using table_ok_mem [OF ok, of str] len by simp
  from None notin len table_ok_step [OF ok len None] show ?thesis
    by (simp add: addFunctionName_def Let_def intern_spec_def unat_of_nat_u16)
next
  case (Some i)
  with ok have i: "unat i < length (functions_pool (bytecode g))" "functions_pool (bytecode g) ! unat i = str"
    unfolding table_ok_def by simp_all
  then have "str \<in> set (functions_pool (bytecode g))" by auto
  with Some i ok show ?thesis
    by (auto simp: addFunctionName_def intern_spec_def)
qed

lemma find_snoc:
  "find P (xs @ [x]) = (case find P xs of Some y \<Rightarrow> Some y | None \<Rightarrow> if P x then Some x else None)"
  by (induction xs) simp_all

lemma d_eq_refl: "\<not> d_is_nan a \<Longrightarrow> d_eq a a"
  by (simp add: d_eq_def)

lemma zip_upt_snoc:
  "zip (pool @ [v]) (map f [0..<Suc (length pool)]) = zip pool (map f [0..<length pool]) @ [(v, f (length pool))]"
  by simp

lemma in_zip_upt:
  "kv \<in> set (zip pool (map f [0..<length pool])) \<Longrightarrow> \<exists>j < length pool. kv = (pool ! j, f j)"
  by (auto simp: in_set_zip)

lemma addNumberConstant_interns:
  assumes ok: "number_table_ok (numberConstants g) (numbers (bytecode g))"
    and len: "length (numbers (bytecode g)) < 65536"
    and nn: "\<not> d_is_nan num"
  shows "intern_spec d_eq (numbers (bytecode g)) num
           (unat (fst (addNumberConstant g num))) (numbers (bytecode (snd (addNumberConstant g num))))
         \<and> addNumberConstant (snd (addNumberConstant g num)) num = addNumberConstant g num
         \<and> number_table_ok (numberConstants (snd (addNumberConstant g num)))
                     (numbers (bytecode (snd (addNumberConstant g num))))"
proof -
  let ?pool = "numbers (bytecode g)"
  let ?tbl = "numberConstants g"
  from ok have tbl: "?tbl = zip ?pool (map of_nat [0..<length ?pool])"
    and pn: "\<forall>k \<in> set ?pool. \<not> d_is_nan k"
    unfolding number_table_ok_def by simp_all
  show ?thesis
  proof (cases "find (\<lambda>kv. d_equiv (fst kv) num) ?tbl")
    case None
    then have none: "\<forall>kv \<in> set ?tbl. \<not> d_equiv (fst kv) num"
      by (auto simp: find_None_iff)
    have absent: "\<not> (\<exists>k \<in> set ?pool. d_eq k num)"
    proof
      assume "\<exists>k \<in> set ?pool. d_eq k num"
      then obtain j where j: "j < length ?pool" "d_eq (?pool ! j) num"
        by (auto simp: in_set_conv_nth)
      then have "(?pool ! j, (of_nat j :: uint16)) \<in> set ?tbl"
        by (subst tbl) (auto simp: in_set_zip intro!: exI [of _ j])
      with none have "\<not> d_equiv (?pool ! j) num" by fastforce
      moreover from j pn have "\<not> d_is_nan (?pool ! j)" by simp
      ultimately show False using j nn by (simp add: d_equiv_eq)
    qed
    have again: "find (\<lambda>kv. d_equiv (fst kv) num) (?tbl @ [(num, of_nat (length ?pool))])
                 = Some (num, of_nat (length ?pool))"
      using None nn by (simp add: find_snoc d_equiv_eq d_eq_refl)
    from None absent again tbl pn nn len show ?thesis
      by (simp add: addNumberConstant_def number_find_def Let_def intern_spec_def
          unat_of_nat_u16 number_table_ok_def)
  next
    case (Some kv)
    then have mem: "kv \<in> set ?tbl" and eqv: "d_equiv (fst kv) num"
      by (auto simp: find_Some_iff in_set_conv_nth)
    from mem tbl obtain j where j: "j < length ?pool" "kv = (?pool ! j, of_nat j)"
      using in_zip_upt [of kv ?pool of_nat] by auto
    from j pn have "\<not> d_is_nan (?pool ! j)" by simp
    with eqv j nn have e: "d_eq (?pool ! j) num" by (simp add: d_equiv_eq)
    with j have present: "\<exists>k \<in> set ?pool. d_eq k num" by auto
    from j len have u: "unat (snd kv) = j" by (simp add: unat_of_nat_u16)
    from Some present e j u ok show ?thesis
      by (simp add: addNumberConstant_def number_find_def intern_spec_def)
  qed
qed


lemma generator_ok_initial: "generator_ok initial_generator"
  by (simp add: generator_ok_def initial_generator_def empty_Bytecode_def table_ok_def
      number_table_ok_def)

lemma d_equiv_refl: "d_equiv a a"
  by (simp add: d_equiv_def d_less_def)

lemma addStringConstant_twice:
  "addStringConstant (snd (addStringConstant g str)) str = addStringConstant g str"
  by (simp add: addStringConstant_def Let_def split: option.splits)

lemma addGeneralConstant_twice:
  "addGeneralConstant (snd (addGeneralConstant g str)) str = addGeneralConstant g str"
  by (simp add: addGeneralConstant_def Let_def split: option.splits)

lemma addFunctionName_twice:
  "addFunctionName (snd (addFunctionName g str)) str = addFunctionName g str"
  by (simp add: addFunctionName_def Let_def split: option.splits)

lemma addNumberConstant_twice:
  "addNumberConstant (snd (addNumberConstant g num)) num = addNumberConstant g num"
proof (cases "find (\<lambda>kv. d_equiv (fst kv) num) (numberConstants g)")
  case None
  then have "find (\<lambda>kv. d_equiv (fst kv) num)
               (numberConstants g @ [(num, of_nat (length (numbers (bytecode g))))])
             = Some (num, of_nat (length (numbers (bytecode g))))"
    by (simp add: find_snoc d_equiv_refl)
  with None show ?thesis
    by (simp add: addNumberConstant_def number_find_def Let_def)
next
  case (Some kv)
  then show ?thesis
    by (simp add: addNumberConstant_def number_find_def)
qed

text \<open>
  C6, as the code has it. In every state of the generator, interning a value and then
  interning it again returns the same index, and the second call changes nothing. While
  a pool holds fewer than 65536 entries (and, for the number pool, the value is not a
  NaN), each of the four interning operations behaves as the specification's \<open>intern\<close>:
  a value already in the pool (text equality, numeric equality for numbers) returns the
  position of the equal entry and leaves the pool unchanged, a new value is appended and
  its position, the new last one, is returned; the tables stay consistent with the pools.
\<close>

theorem interning_is_idempotent:
  "addStringConstant (snd (addStringConstant g str)) str = addStringConstant g str
   \<and> addNumberConstant (snd (addNumberConstant g num)) num = addNumberConstant g num
   \<and> addGeneralConstant (snd (addGeneralConstant g str)) str = addGeneralConstant g str
   \<and> addFunctionName (snd (addFunctionName g str)) str = addFunctionName g str
   \<and> (generator_ok g \<and> length (strings (bytecode g)) < 65536
        \<and> length (numbers (bytecode g)) < 65536 \<and> length (constants (bytecode g)) < 65536
        \<and> length (functions_pool (bytecode g)) < 65536 \<and> \<not> d_is_nan num \<longrightarrow>
      intern_spec (=) (strings (bytecode g)) str
        (unat (fst (addStringConstant g str))) (strings (bytecode (snd (addStringConstant g str))))
      \<and> intern_spec d_eq (numbers (bytecode g)) num
        (unat (fst (addNumberConstant g num))) (numbers (bytecode (snd (addNumberConstant g num))))
      \<and> intern_spec (=) (constants (bytecode g)) str
        (unat (fst (addGeneralConstant g str))) (constants (bytecode (snd (addGeneralConstant g str))))
      \<and> intern_spec (=) (functions_pool (bytecode g)) str
        (unat (fst (addFunctionName g str))) (functions_pool (bytecode (snd (addFunctionName g str))))
      \<and> generator_ok (snd (addStringConstant g str))
      \<and> generator_ok (snd (addNumberConstant g num))
      \<and> generator_ok (snd (addGeneralConstant g str))
      \<and> generator_ok (snd (addFunctionName g str)))"
proof -
  have "intern_spec (=) (strings (bytecode g)) str
        (unat (fst (addStringConstant g str))) (strings (bytecode (snd (addStringConstant g str))))
      \<and> intern_spec d_eq (numbers (bytecode g)) num
        (unat (fst (addNumberConstant g num))) (numbers (bytecode (snd (addNumberConstant g num))))
      \<and> intern_spec (=) (constants (bytecode g)) str
        (unat (fst (addGeneralConstant g str))) (constants (bytecode (snd (addGeneralConstant g str))))
      \<and> intern_spec (=) (functions_pool (bytecode g)) str
        (unat (fst (addFunctionName g str))) (functions_pool (bytecode (snd (addFunctionName g str))))
      \<and> generator_ok (snd (addStringConstant g str))
      \<and> generator_ok (snd (addNumberConstant g num))
      \<and> generator_ok (snd (addGeneralConstant g str))
      \<and> generator_ok (snd (addFunctionName g str))"
    if h: "generator_ok g" "length (strings (bytecode g)) < 65536"
      "length (numbers (bytecode g)) < 65536" "length (constants (bytecode g)) < 65536"
      "length (functions_pool (bytecode g)) < 65536" "\<not> d_is_nan num"
  proof -
    from h(1) have ok:
      "table_ok (stringConstants g) (strings (bytecode g))"
      "number_table_ok (numberConstants g) (numbers (bytecode g))"
      "table_ok (generalConstants g) (constants (bytecode g))"
      "table_ok (functionNames g) (functions_pool (bytecode g))"
      unfolding generator_ok_def by simp_all
    note s = addStringConstant_interns [OF ok(1) h(2), of str]
    note n = addNumberConstant_interns [OF ok(2) h(3) h(6)]
    note c = addGeneralConstant_interns [OF ok(3) h(4), of str]
    note f = addFunctionName_interns [OF ok(4) h(5), of str]
    have s': "generator_ok (snd (addStringConstant g str))"
      using s ok unfolding generator_ok_def
      by (auto simp: addStringConstant_def Let_def split: option.splits)
    have n': "generator_ok (snd (addNumberConstant g num))"
      using n ok unfolding generator_ok_def
      by (auto simp: addNumberConstant_def Let_def split: option.splits)
    have c': "generator_ok (snd (addGeneralConstant g str))"
      using c ok unfolding generator_ok_def
      by (auto simp: addGeneralConstant_def Let_def split: option.splits)
    have f': "generator_ok (snd (addFunctionName g str))"
      using f ok unfolding generator_ok_def
      by (auto simp: addFunctionName_def Let_def split: option.splits)
    from s n c f s' n' c' f' show ?thesis by simp
  qed
  then show ?thesis
    using addStringConstant_twice [of g str] addNumberConstant_twice [of g num]
      addGeneralConstant_twice [of g str] addFunctionName_twice [of g str]
    by blast
qed

theorem interning_is_idempotent_witness:
  "generator_ok initial_generator
   \<and> length (strings (bytecode initial_generator)) < 65536
   \<and> length (numbers (bytecode initial_generator)) < 65536
   \<and> length (constants (bytecode initial_generator)) < 65536
   \<and> length (functions_pool (bytecode initial_generator)) < 65536
   \<and> \<not> d_is_nan d_one
   \<and> intern_spec (=) [] ''x'' (unat (fst (addStringConstant initial_generator ''x''))) [''x'']
   \<and> intern_spec d_eq [] d_one (unat (fst (addNumberConstant initial_generator d_one))) [d_one]
   \<and> addGeneralConstant (snd (addGeneralConstant initial_generator ''x'')) ''x''
       = addGeneralConstant initial_generator ''x''
   \<and> addFunctionName (snd (addFunctionName initial_generator ''x'')) ''x''
       = addFunctionName initial_generator ''x''"
proof -
  have h: "length (strings (bytecode initial_generator)) < 65536"
    "length (numbers (bytecode initial_generator)) < 65536"
    "length (constants (bytecode initial_generator)) < 65536"
    "length (functions_pool (bytecode initial_generator)) < 65536"
    by (simp_all add: initial_generator_def empty_Bytecode_def)
  have nn: "\<not> d_is_nan d_one"
    by (simp add: d_is_nan_def d_mag_def d_one_def)
  have e: "strings (bytecode initial_generator) = []" "numbers (bytecode initial_generator) = []"
    "strings (bytecode (snd (addStringConstant initial_generator ''x''))) = [''x'']"
    "numbers (bytecode (snd (addNumberConstant initial_generator d_one))) = [d_one]"
    by (simp_all add: initial_generator_def empty_Bytecode_def addStringConstant_def
        addNumberConstant_def number_find_def Let_def)
  from interning_is_idempotent [of initial_generator "''x''" d_one] e
    generator_ok_initial h nn
  show ?thesis by simp
qed

lemma length_wide_pool: "length wide_pool = 65536"
  by (simp add: wide_pool_def)

lemma nth_wide_pool: "n < 65536 \<Longrightarrow> wide_pool ! n = replicate (Suc n) (CHR ''a'')"
  unfolding wide_pool_def by (subst nth_map) simp_all

lemma in_take_wide_pool:
  assumes k: "k \<le> 65536"
  shows "s \<in> set (take k wide_pool) \<longleftrightarrow> (\<exists>j < k. s = replicate (Suc j) (CHR ''a''))"
proof
  assume "s \<in> set (take k wide_pool)"
  then obtain j where j: "j < length (take k wide_pool)" "take k wide_pool ! j = s"
    by (auto simp: in_set_conv_nth)
  with k have "j < k" "wide_pool ! j = s" by (simp_all add: length_wide_pool)
  with k show "\<exists>j < k. s = replicate (Suc j) (CHR ''a'')"
    by (auto simp: nth_wide_pool)
next
  assume "\<exists>j < k. s = replicate (Suc j) (CHR ''a'')"
  then obtain j where j: "j < k" "s = replicate (Suc j) (CHR ''a'')" by blast
  with k have "j < length (take k wide_pool)" "take k wide_pool ! j = s"
    by (simp_all add: length_wide_pool nth_wide_pool)
  then show "s \<in> set (take k wide_pool)" by (metis nth_mem)
qed

lemma not_in_wide_pool: "''b'' \<notin> set wide_pool"
  by (auto simp: wide_pool_def)

lemma intern_names_prefix:
  "k \<le> 65536 \<Longrightarrow>
   intern_names (take k wide_pool) =
     initial_generator
       \<lparr>bytecode := empty_Bytecode\<lparr>constants := take k wide_pool\<rparr>,
        generalConstants :=
          (\<lambda>s. if s \<in> set (take k wide_pool) then Some (of_nat (length s - 1)) else None)\<rparr>"
proof (induction k)
  case 0
  show ?case
    by (simp add: intern_names_def initial_generator_def empty_Bytecode_def)
next
  case (Suc k)
  let ?new = "replicate (Suc k) (CHR ''a'')"
  from Suc.prems have k: "k < 65536" "k \<le> 65536" by simp_all
  have t: "take (Suc k) wide_pool = take k wide_pool @ [?new]"
    using k by (simp add: take_Suc_conv_app_nth length_wide_pool nth_wide_pool)
  have fresh: "?new \<notin> set (take k wide_pool)"
  proof
    assume "?new \<in> set (take k wide_pool)"
    then obtain j where "j < k" "?new = replicate (Suc j) (CHR ''a'')"
      using in_take_wide_pool [OF k(2)] by blast
    then have "length ?new = length (replicate (Suc j) (CHR ''a''))" by simp
    with \<open>j < k\<close> show False by simp
  qed
  have len: "length (take k wide_pool) = k"
    using k by (simp add: length_wide_pool)
  have tbl: "(\<lambda>s. if s \<in> set (take k wide_pool) then Some (of_nat (length s - 1) :: uint16) else None)
               (?new \<mapsto> of_nat k)
             = (\<lambda>s. if s \<in> set (take k wide_pool @ [?new]) then Some (of_nat (length s - 1)) else None)"
    by (rule ext) auto
  have "intern_names (take (Suc k) wide_pool)
        = snd (addGeneralConstant (intern_names (take k wide_pool)) ?new)"
    unfolding t by (simp add: intern_names_def)
  also have "\<dots> = initial_generator
       \<lparr>bytecode := empty_Bytecode\<lparr>constants := take k wide_pool @ [?new]\<rparr>,
        generalConstants :=
          (\<lambda>s. if s \<in> set (take k wide_pool @ [?new]) then Some (of_nat (length s - 1)) else None)\<rparr>"
    unfolding Suc.IH [OF k(2)]
    using fresh len tbl
    by (simp add: addGeneralConstant_def Let_def initial_generator_def empty_Bytecode_def)
  finally show ?case unfolding t .
qed

lemma wide_generator_state:
  "wide_generator =
     initial_generator
       \<lparr>bytecode := empty_Bytecode\<lparr>constants := wide_pool\<rparr>,
        generalConstants :=
          (\<lambda>s. if s \<in> set wide_pool then Some (of_nat (length s - 1)) else None)\<rparr>"
  using intern_names_prefix [of 65536] by (simp add: wide_generator_def length_wide_pool)

text \<open>
  The claim as stated fails once a pool holds 65536 entries. When the generator has
  interned the 65536 identifiers of \<open>wide_pool\<close>, the new identifier \<open>b\<close> is appended,
  yet the index returned is 0 and not the new last position 65536: the result is not what
  \<open>intern\<close> specifies.
\<close>

theorem interning_new_index_counterexample:
  "wide_generator = intern_names wide_pool
   \<and> constants (bytecode wide_generator) = wide_pool
   \<and> length wide_pool = 65536
   \<and> fst (addGeneralConstant wide_generator ''b'') = 0
   \<and> constants (bytecode (snd (addGeneralConstant wide_generator ''b''))) = wide_pool @ [''b'']
   \<and> \<not> intern_spec (=) (constants (bytecode wide_generator)) ''b''
         (unat (fst (addGeneralConstant wide_generator ''b'')))
         (constants (bytecode (snd (addGeneralConstant wide_generator ''b''))))"
  using not_in_wide_pool
  by (simp add: wide_generator_state addGeneralConstant_def initial_generator_def Let_def
      intern_spec_def length_wide_pool wide_generator_def [symmetric])

subsection \<open>The virtual machine\<close>

lemmas exec_defs =
  exec_PUSH_NUM_def exec_PUSH_STR_def exec_PUSH_CONST_def exec_POP_def pop2_def
  exec_ADD_def exec_SUB_def exec_MUL_def exec_DIV_def exec_MOD_def exec_CALL_def
  exec_JMP_def exec_JMP_IF_FALSE_def exec_JMP_IF_TRUE_def exec_LOAD_def exec_STORE_def
  exec_HALT_def pop_def push_def operand16_def operand32_def operand8_def asBoolean_def

lemma run_step:
  "programCounter vm < length (code bc) \<Longrightarrow> executeInstruction h bc vm = Inr vm'
   \<Longrightarrow> run h bc (Suc n) vm = run h bc n vm'"
  by simp

lemma run_error:
  "programCounter vm < length (code bc) \<Longrightarrow> executeInstruction h bc vm = Inl e
   \<Longrightarrow> run h bc (Suc n) vm = Some (Inl e)"
  by simp

lemma run_done: "\<not> programCounter vm < length (code bc) \<Longrightarrow> run h bc n vm = Some (Inr vm)"
  by (cases n) simp_all

lemma run_unfold:
  "0 < n \<Longrightarrow> run h bc n vm =
     (if programCounter vm < length (code bc)
      then (case executeInstruction h bc vm of
              Inl e \<Rightarrow> Some (Inl e)
            | Inr vm' \<Rightarrow> run h bc (n - 1) vm')
      else Some (Inr vm))"
  by (cases n) (auto split: sum.splits)

lemma run_next:
  "0 < n \<Longrightarrow> programCounter vm < length (code bc) \<Longrightarrow> executeInstruction h bc vm = Inr vm'
   \<Longrightarrow> run h bc n vm = run h bc (n - 1) vm'"
  by (simp add: run_unfold)

text \<open>
  C2, as the code has it. A push-number, push-string or push-const instruction whose
  two operand bytes lie inside the code reads its 16-bit pool index and moves the program
  counter past the operand; it pushes the pool entry when the index is below the size of
  the pool, and otherwise pushes nothing and goes on: an index out of range raises no
  error.
\<close>

theorem push_index_out_of_range_is_skipped:
  assumes "operand16 bc (programCounter vm + 1) = Inr index"
  shows
    "(code bc ! programCounter vm = opcode_byte OP_PUSH_NUM \<longrightarrow>
        executeInstruction h bc vm =
          Inr (if unat index < length (numbers bc)
               then vm\<lparr>programCounter := programCounter vm + 3,
                        stack := stack vm @ [VNumber (numbers bc ! unat index)]\<rparr>
               else vm\<lparr>programCounter := programCounter vm + 3\<rparr>))
     \<and> (code bc ! programCounter vm = opcode_byte OP_PUSH_STR \<longrightarrow>
        executeInstruction h bc vm =
          Inr (if unat index < length (strings bc)
               then vm\<lparr>programCounter := programCounter vm + 3,
                        stack := stack vm @ [VString (strings bc ! unat index)]\<rparr>
               else vm\<lparr>programCounter := programCounter vm + 3\<rparr>))
     \<and> (code bc ! programCounter vm = opcode_byte OP_PUSH_CONST \<longrightarrow>
        executeInstruction h bc vm =
          Inr (if unat index < length (constants bc)
               then vm\<lparr>programCounter := programCounter vm + 3,
                        stack := stack vm @ [VString (constants bc ! unat index)]\<rparr>
               else vm\<lparr>programCounter := programCounter vm + 3\<rparr>))"
proof -
  from assms have r: "programCounter vm + 2 < length (code bc)"
    by (simp add: operand16_def split: if_splits)
  then have "\<not> length (code bc) \<le> programCounter vm" by simp
  with assms show ?thesis
    by (simp add: executeInstruction_def Let_def exec_PUSH_NUM_def exec_PUSH_STR_def
        exec_PUSH_CONST_def push_def)
qed

theorem push_index_out_of_range_witness:
  "operand16 bad_push (programCounter (initial_vm []) + 1) = Inr 5
   \<and> code bad_push ! programCounter (initial_vm []) = opcode_byte OP_PUSH_NUM
   \<and> executeInstruction natural_host bad_push (initial_vm [])
       = Inr ((initial_vm [])\<lparr>programCounter := 3\<rparr>)"
proof -
  have h: "operand16 bad_push (programCounter (initial_vm []) + 1) = Inr 5"
    by (simp add: operand16_def bad_push_def initial_vm_def)
  from push_index_out_of_range_is_skipped [OF h, of natural_host] h show ?thesis
    by (simp add: bad_push_def initial_vm_def empty_Bytecode_def)
qed


text \<open>
  The claim as stated fails on \<open>PUSH_NUM 5; HALT\<close> with an empty number pool: the
  instruction returns a machine, not an error, and the whole run ends normally with an
  empty stack.
\<close>

theorem push_index_out_of_range_counterexample:
  "executeInstruction natural_host bad_push (initial_vm [])
     = Inr ((initial_vm [])\<lparr>programCounter := 3\<rparr>)
   \<and> execute natural_host bad_push [] 2 = Some (Inr ((initial_vm [])\<lparr>programCounter := 4\<rparr>))"
  by (simp add: execute_def run_unfold executeInstruction_def bad_push_def empty_Bytecode_def
      initial_vm_def exec_defs Let_def)

text \<open>
  C4, as the code has it. A conditional jump whose four operand bytes lie inside the code
  pops the top of the stack and reads it with \<open>asBoolean\<close>: a boolean decides the
  branch (jump-if-false branches on false, jump-if-true on true, otherwise execution goes
  on after the operand), and any other value, whatever its truthiness, makes the
  instruction fail with "Value is not a boolean".
\<close>

theorem conditional_jump_requires_boolean:
  assumes "operand32 bc (programCounter vm + 1) = Inr target" and "stack vm = rest @ [v]"
  shows
    "(code bc ! programCounter vm = opcode_byte OP_JMP_IF_FALSE \<longrightarrow>
        executeInstruction h bc vm =
          (case v of
             VBoolean c \<Rightarrow>
               Inr (vm\<lparr>programCounter := (if \<not> c then unat target else programCounter vm + 5),
                       stack := rest\<rparr>)
           | _ \<Rightarrow> Inl NotABoolean))
     \<and> (code bc ! programCounter vm = opcode_byte OP_JMP_IF_TRUE \<longrightarrow>
        executeInstruction h bc vm =
          (case v of
             VBoolean c \<Rightarrow>
               Inr (vm\<lparr>programCounter := (if c then unat target else programCounter vm + 5),
                       stack := rest\<rparr>)
           | _ \<Rightarrow> Inl NotABoolean))"
proof -
  from assms(1) have "programCounter vm + 4 < length (code bc)"
    by (simp add: operand32_def split: if_splits)
  then have "\<not> length (code bc) \<le> programCounter vm" by simp
  with assms show ?thesis
    by (cases v)
      (simp_all add: executeInstruction_def Let_def exec_JMP_IF_FALSE_def exec_JMP_IF_TRUE_def
        pop_def asBoolean_def)
qed

theorem conditional_jump_requires_boolean_witness:
  "operand32 falsy_jump (programCounter ((initial_vm [])\<lparr>programCounter := 3, stack := [VNumber 0]\<rparr>) + 1)
     = Inr 8
   \<and> stack ((initial_vm [])\<lparr>programCounter := 3, stack := [VNumber 0]\<rparr>) = [] @ [VNumber 0]
   \<and> executeInstruction natural_host falsy_jump
        ((initial_vm [])\<lparr>programCounter := 3, stack := [VNumber 0]\<rparr>) = Inl NotABoolean"
proof -
  let ?vm = "(initial_vm [])\<lparr>programCounter := 3, stack := [VNumber 0]\<rparr>"
  have h1: "operand32 falsy_jump (programCounter ?vm + 1) = Inr 8"
    by (simp add: operand32_def falsy_jump_def initial_vm_def)
  have h2: "stack ?vm = [] @ [VNumber 0]" by simp
  from conditional_jump_requires_boolean [OF h1 h2, of natural_host] h1 h2 show ?thesis
    by (simp add: falsy_jump_def initial_vm_def)
qed

text \<open>
  The claim as stated fails on \<open>PUSH_NUM 0; JMP_IF_FALSE 8; HALT\<close>: the number 0 is
  false under the type-dependent truthiness, yet the machine does not branch, it fails.
\<close>

theorem conditional_jump_truthiness_counterexample:
  "toBoolean (VNumber 0) = False
   \<and> execute natural_host falsy_jump [] 3 = Some (Inl NotABoolean)"
  by (simp add: execute_def run_unfold executeInstruction_def falsy_jump_def empty_Bytecode_def
      initial_vm_def exec_defs Let_def d_nonzero_def d_eq_def d_is_nan_def d_mag_def)

text \<open>
  C7. With the two operands \<open>a\<close> (left) and \<open>b\<close> (right, popped first) on top of the
  stack, a div or mod instruction whose right operand is numerically zero raises the
  divide-by-zero or modulo-by-zero failure, which leaves the instruction loop at once, so
  nothing is pushed; when the right operand is not zero, the two operands are replaced by
  the quotient, or the \<open>fmod\<close> remainder, of their numeric coercions.
\<close>

theorem division_by_zero_is_fatal:
  assumes "programCounter vm < length (code bc)" and "stack vm = rest @ [a, b]"
  shows
    "(code bc ! programCounter vm = opcode_byte OP_DIV \<longrightarrow>
        (d_eq (toNumber h b) 0 \<longrightarrow>
           executeInstruction h bc vm = Inl DivisionByZero
           \<and> run h bc (Suc n) vm = Some (Inl DivisionByZero))
        \<and> (\<not> d_eq (toNumber h b) 0 \<longrightarrow>
           executeInstruction h bc vm =
             Inr (vm\<lparr>programCounter := programCounter vm + 1,
                     stack := rest @ [VNumber (h_div h (toNumber h a) (toNumber h b))]\<rparr>)))
     \<and> (code bc ! programCounter vm = opcode_byte OP_MOD \<longrightarrow>
        (d_eq (toNumber h b) 0 \<longrightarrow>
           executeInstruction h bc vm = Inl ModuloByZero
           \<and> run h bc (Suc n) vm = Some (Inl ModuloByZero))
        \<and> (\<not> d_eq (toNumber h b) 0 \<longrightarrow>
           executeInstruction h bc vm =
             Inr (vm\<lparr>programCounter := programCounter vm + 1,
                     stack := rest @ [VNumber (h_fmod h (toNumber h a) (toNumber h b))]\<rparr>)))"
  using assms
  by (simp add: executeInstruction_def Let_def exec_DIV_def exec_MOD_def pop2_def pop_def
      push_def d_nonzero_def butlast_append)

theorem division_by_zero_is_fatal_witness:
  "execute natural_host ten_div_zero [] 3 = Some (Inl DivisionByZero)
   \<and> execute natural_host six_mod_four [] 4
       = Some (Inr ((initial_vm [])\<lparr>programCounter := 8, stack := [VNumber (double_of_nat 2)]\<rparr>))"
proof -
  let ?h = natural_host
  let ?vm1 = "(initial_vm [])\<lparr>programCounter := 3, stack := [VNumber (double_of_nat 10)]\<rparr>"
  let ?vm2 = "(initial_vm [])\<lparr>programCounter := 6,
               stack := [] @ [VNumber (double_of_nat 10), VNumber 0]\<rparr>"
  let ?wm1 = "(initial_vm [])\<lparr>programCounter := 3, stack := [VNumber (double_of_nat 6)]\<rparr>"
  let ?wm2 = "(initial_vm [])\<lparr>programCounter := 6,
               stack := [] @ [VNumber (double_of_nat 6), VNumber (double_of_nat 4)]\<rparr>"
  let ?wm3 = "(initial_vm [])\<lparr>programCounter := 7, stack := [VNumber (double_of_nat 2)]\<rparr>"
  let ?wm4 = "(initial_vm [])\<lparr>programCounter := 8, stack := [VNumber (double_of_nat 2)]\<rparr>"
  note defs = executeInstruction_def ten_div_zero_def six_mod_four_def empty_Bytecode_def
    initial_vm_def exec_defs Let_def
  have z: "d_eq (toNumber ?h (VNumber 0)) 0"
    "\<not> d_eq (toNumber ?h (VNumber (double_of_nat 4))) 0"
    by (simp_all add: d_eq_def d_is_nan_def d_mag_def double_of_nat_def bitlen.simps Let_def)
  have a1: "executeInstruction ?h ten_div_zero (initial_vm []) = Inr ?vm1"
    and a2: "executeInstruction ?h ten_div_zero ?vm1 = Inr ?vm2"
    and b1: "executeInstruction ?h six_mod_four (initial_vm []) = Inr ?wm1"
    and b2: "executeInstruction ?h six_mod_four ?wm1 = Inr ?wm2"
    and b4: "executeInstruction ?h six_mod_four ?wm3 = Inr ?wm4"
    by (simp_all add: defs)
  have a3: "run ?h ten_div_zero (Suc 0) ?vm2 = Some (Inl DivisionByZero)"
    using division_by_zero_is_fatal [of ?vm2 ten_div_zero "[]" "VNumber (double_of_nat 10)"
        "VNumber 0" ?h 0] z(1)
    by (simp add: ten_div_zero_def)
  have b3: "executeInstruction ?h six_mod_four ?wm2 = Inr ?wm3"
    using division_by_zero_is_fatal [of ?wm2 six_mod_four "[]" "VNumber (double_of_nat 6)"
        "VNumber (double_of_nat 4)" ?h 0] z(2)
    by (simp add: six_mod_four_def natural_host_def nat_op_def nat_of_double_def double_of_nat_def
        bitlen.simps Let_def initial_vm_def)
  have "execute ?h ten_div_zero [] 3 = run ?h ten_div_zero 2 ?vm1"
    unfolding execute_def by (subst run_next [OF _ _ a1]) (simp_all add: defs)
  also have "\<dots> = run ?h ten_div_zero 1 ?vm2"
    by (subst run_next [OF _ _ a2]) (simp_all add: defs)
  also have "\<dots> = Some (Inl DivisionByZero)" using a3 by simp
  finally have A: "execute ?h ten_div_zero [] 3 = Some (Inl DivisionByZero)" .
  have "execute ?h six_mod_four [] 4 = run ?h six_mod_four 3 ?wm1"
    unfolding execute_def by (subst run_next [OF _ _ b1]) (simp_all add: defs)
  also have "\<dots> = run ?h six_mod_four 2 ?wm2"
    by (subst run_next [OF _ _ b2]) (simp_all add: defs)
  also have "\<dots> = run ?h six_mod_four 1 ?wm3"
    by (subst run_next [OF _ _ b3]) (simp_all add: defs)
  also have "\<dots> = run ?h six_mod_four 0 ?wm4"
    by (subst run_next [OF _ _ b4]) (simp_all add: defs)
  also have "\<dots> = Some (Inr ?wm4)" by (simp add: defs)
  finally have B: "execute ?h six_mod_four [] 4 = Some (Inr ?wm4)" .
  from A B show ?thesis by simp
qed



subsection \<open>The binary codec\<close>

lemma length_le_bytes: "length (le_bytes k n) = k"
  by (induction k arbitrary: n) simp_all

lemma le_value_le_bytes: "n < 256 ^ k \<Longrightarrow> le_value (le_bytes k n) = n"
proof (induction k arbitrary: n)
  case 0
  then show ?case by simp
next
  case (Suc k)
  then have "n div 256 < 256 ^ k" by (simp add: less_mult_imp_div_less mult.commute)
  with Suc.IH have "le_value (le_bytes k (n div 256)) = n div 256" by simp
  moreover have "unat (of_nat (n mod 256) :: byte) = n mod 256"
    by (simp add: unat_of_nat)
  ultimately show ?case by simp
qed

lemma length_raw_bytes: "length (raw_bytes e k n) = k"
  by (cases e) (simp_all add: raw_bytes_def length_le_bytes)

lemma raw_value_raw_bytes: "n < 256 ^ k \<Longrightarrow> raw_value e (raw_bytes e k n) = n"
  by (cases e) (simp_all add: raw_bytes_def raw_value_def le_value_le_bytes)

lemma stream_read_prefix:
  "length xs = n \<Longrightarrow> stream_read n (xs @ rest, False) = (xs, (rest, False))"
  by (simp add: stream_read_def)

lemma read_scalar_raw:
  "n < 256 ^ k \<Longrightarrow> read_scalar e k (raw_bytes e k n @ rest, False) = Inr (n, (rest, False))"
  by (simp add: read_scalar_def stream_read_prefix length_raw_bytes raw_value_raw_bytes)

lemma read_buffer_prefix:
  "length xs = n \<Longrightarrow> read_buffer n (xs @ rest, False) = (xs, (rest, False))"
  by (simp add: read_buffer_def stream_read_prefix)

lemma char_of_byte_of_char: "char_of_byte (byte_of_char c) = c"
proof -
  have "(of_char c :: byte) = of_nat (of_char c)" by (simp add: of_nat_of_char)
  then have "unat (of_char c :: byte) = (of_char c :: nat) mod 256"
    by (simp add: unat_of_nat)
  then have "unat (of_char c :: byte) = (of_char c :: nat)" by simp
  then show ?thesis by (simp add: char_of_byte_def byte_of_char_def)
qed

lemma char_of_of_char_byte: "map (char_of_byte \<circ> byte_of_char) s = s"
  by (induction s) (simp_all add: char_of_byte_of_char)

lemma read_pool_write_pool:
  "\<forall>s \<in> set pool. length s < 65536 \<Longrightarrow>
   read_pool e (length pool) (write_pool e pool @ rest, False) = Inr (pool, (rest, False))"
proof (induction pool)
  case Nil
  then show ?case by (simp add: write_pool_def)
next
  case (Cons s pool)
  then have s: "length s < 65536" and IH:
    "read_pool e (length pool) (write_pool e pool @ rest, False) = Inr (pool, (rest, False))"
    by simp_all
  have w: "write_pool e (s # pool) @ rest
           = raw_bytes e 2 (length s) @ (map byte_of_char s @ (write_pool e pool @ rest))"
    using s by (simp add: write_pool_def)
  have l: "length s < 256 ^ 2" using s by simp
  show ?case
    unfolding w
    by (simp add: read_scalar_raw [OF l] read_buffer_prefix IH char_of_of_char_byte)
qed


lemma take8_drop_concat:
  "\<forall>x \<in> set xs. length (f x) = 8 \<Longrightarrow> i < length xs \<Longrightarrow>
   take 8 (drop (i * 8) (concat (map f xs) @ rest)) = f (xs ! i)"
proof (induction xs arbitrary: i)
  case Nil
  then show ?case by simp
next
  case (Cons x xs)
  show ?case
  proof (cases i)
    case 0
    with Cons.prems show ?thesis by simp
  next
    case (Suc j)
    with Cons.prems have "j < length xs" by simp
    with Cons have "take 8 (drop (j * 8) (concat (map f xs) @ rest)) = f (xs ! j)" by simp
    with Suc Cons.prems show ?thesis by simp
  qed
qed

lemma read_numbers_raw:
  assumes "bs = concat (map (\<lambda>d. raw_bytes e 8 (unat d)) ds)"
  shows "read_numbers e (length ds) (bs @ rest, False) = (ds, (rest, False))"
proof -
  have len: "length bs = length ds * 8"
    unfolding assms by (induction ds) (simp_all add: length_raw_bytes)
  have u: "unat d < 256 ^ 8" for d :: double
    using unsigned_less [of d, where ?'a = nat] by simp
  let ?dec = "\<lambda>i. of_nat (raw_value e (take 8 (drop (i * 8) bs))) :: double"
  have "map ?dec [0..<length ds] = ds"
  proof (rule nth_equalityI)
    show "length (map ?dec [0..<length ds]) = length ds" by simp
  next
    fix i assume "i < length (map ?dec [0..<length ds])"
    then have i: "i < length ds" by simp
    have "take 8 (drop (i * 8) (bs @ [])) = raw_bytes e 8 (unat (ds ! i))"
      unfolding assms
      by (rule take8_drop_concat [where f = "\<lambda>d. raw_bytes e 8 (unat d)"])
         (simp_all add: length_raw_bytes i)
    with i u [of "ds ! i"] show "map ?dec [0..<length ds] ! i = ds ! i"
      by (simp add: raw_value_raw_bytes)
  qed
  moreover have "read_buffer (length ds * 8) (bs @ rest, False) = (bs, (rest, False))"
    using len by (simp add: read_buffer_prefix)
  ultimately show ?thesis
    by (simp add: read_numbers_def)
qed


lemma magic_bytes: "magic = [0x53, 0x4C, 0x42, 0x54]"
  by (simp add: magic_def byte_of_char_def)

lemma read_magic: "stream_read 4 (magic @ rest, False) = (magic, (rest, False))"
  by (rule stream_read_prefix) (simp add: magic_def)

lemma takeWhile_magic: "takeWhile (\<lambda>b. b \<noteq> 0) magic = magic"
  by (simp add: magic_bytes)

lemma read_pool_write_pool_end:
  "\<forall>s \<in> set pool. length s < 65536 \<Longrightarrow>
   read_pool e (length pool) (write_pool e pool, False) = Inr (pool, ([], False))"
  using read_pool_write_pool [of pool e "[]"] by simp

lemma round_trip_within_field_widths:
  assumes "length (code bc) < 2 ^ 32"
    and "length (strings bc) < 2 ^ 16" and "\<forall>s \<in> set (strings bc). length s < 2 ^ 16"
    and "length (numbers bc) < 2 ^ 16"
    and "length (constants bc) < 2 ^ 16" and "\<forall>s \<in> set (constants bc). length s < 2 ^ 16"
    and "length (functions_pool bc) < 2 ^ 16"
    and "\<forall>s \<in> set (functions_pool bc). length s < 2 ^ 16"
  shows "loadBytecodeFromFile e (saveBytecodeToFile e bc) = Inr bc"
proof -
  have b: "length (code bc) < 256 ^ 4" "length (strings bc) < 256 ^ 2"
    "length (numbers bc) < 256 ^ 2" "length (constants bc) < 256 ^ 2"
    "length (functions_pool bc) < 256 ^ 2" "(0x0100 :: nat) < 256 ^ 2"
    using assms by simp_all
  have p: "\<forall>s \<in> set (strings bc). length s < 65536"
    "\<forall>s \<in> set (constants bc). length s < 65536"
    "\<forall>s \<in> set (functions_pool bc). length s < 65536"
    using assms by simp_all
  have save: "saveBytecodeToFile e bc =
      magic @ (raw_bytes e 2 0x0100 @ (raw_bytes e 4 (length (code bc)) @ (code bc
        @ (raw_bytes e 2 (length (strings bc)) @ (write_pool e (strings bc)
        @ (raw_bytes e 2 (length (numbers bc))
        @ (concat (map (\<lambda>d. raw_bytes e 8 (unat d)) (numbers bc))
        @ (raw_bytes e 2 (length (constants bc)) @ (write_pool e (constants bc)
        @ (raw_bytes e 2 (length (functions_pool bc))
        @ write_pool e (functions_pool bc)))))))))))"
    using assms by (simp add: saveBytecodeToFile_def Let_def)
  show ?thesis
    unfolding save loadBytecodeFromFile_def
    by (simp add: read_magic takeWhile_magic and_then_def read_scalar_raw [OF b(6)]
        read_scalar_raw [OF b(1)] read_scalar_raw [OF b(2)] read_scalar_raw [OF b(3)]
        read_scalar_raw [OF b(4)] read_scalar_raw [OF b(5)] read_buffer_prefix
        read_pool_write_pool [OF p(1)] read_pool_write_pool [OF p(2)]
        read_pool_write_pool_end [OF p(3)] read_numbers_raw [OF refl])
qed

text \<open>
  C1, as the code has it. For every container that fits the widths of the format's length
  fields (fewer than \<open>2^32\<close> code bytes, fewer than \<open>2^16\<close> entries in each pool, every
  string, constant and function name shorter than \<open>2^16\<close> bytes), loading what
  \<open>saveBytecodeToFile\<close> wrote succeeds and gives back the same container: the same
  instruction bytes and the same four pools, entry by entry, in the same order, on a host
  of either byte order.
\<close>

theorem codec_round_trip:
  assumes "length (code bc) < 2 ^ 32"
    and "length (strings bc) < 2 ^ 16" and "\<forall>s \<in> set (strings bc). length s < 2 ^ 16"
    and "length (numbers bc) < 2 ^ 16"
    and "length (constants bc) < 2 ^ 16" and "\<forall>s \<in> set (constants bc). length s < 2 ^ 16"
    and "length (functions_pool bc) < 2 ^ 16"
    and "\<forall>s \<in> set (functions_pool bc). length s < 2 ^ 16"
  shows "loadBytecodeFromFile e (saveBytecodeToFile e bc) = Inr bc"
  using assms by (rule round_trip_within_field_widths)

theorem codec_round_trip_witness:
  "length (code sample_container) < 2 ^ 32
   \<and> length (strings sample_container) < 2 ^ 16
   \<and> list_all (\<lambda>s. length s < 2 ^ 16) (strings sample_container)
   \<and> length (numbers sample_container) < 2 ^ 16
   \<and> length (constants sample_container) < 2 ^ 16
   \<and> list_all (\<lambda>s. length s < 2 ^ 16) (constants sample_container)
   \<and> length (functions_pool sample_container) < 2 ^ 16
   \<and> list_all (\<lambda>s. length s < 2 ^ 16) (functions_pool sample_container)
   \<and> loadBytecodeFromFile LittleEndian (saveBytecodeToFile LittleEndian sample_container)
       = Inr sample_container
   \<and> loadBytecodeFromFile BigEndian (saveBytecodeToFile BigEndian sample_container)
       = Inr sample_container"
proof -
  have h: "length (code sample_container) < 2 ^ 32"
    "length (strings sample_container) < 2 ^ 16"
    "\<forall>s \<in> set (strings sample_container). length s < 2 ^ 16"
    "length (numbers sample_container) < 2 ^ 16"
    "length (constants sample_container) < 2 ^ 16"
    "\<forall>s \<in> set (constants sample_container). length s < 2 ^ 16"
    "length (functions_pool sample_container) < 2 ^ 16"
    "\<forall>s \<in> set (functions_pool sample_container). length s < 2 ^ 16"
    by (simp_all add: sample_container_def)
  from codec_round_trip [OF h, of LittleEndian] codec_round_trip [OF h, of BigEndian] h
  show ?thesis by (simp add: list_all_iff)
qed

text \<open>
  The claim as stated fails on a container whose only string has 65536 characters: its
  length is written as 0 and none of its bytes, and the load returns the empty string in
  its place.
\<close>

theorem codec_round_trip_counterexample:
  "loadBytecodeFromFile LittleEndian (saveBytecodeToFile LittleEndian long_string_container)
     = Inr (long_string_container\<lparr>strings := [[]]\<rparr>)
   \<and> strings long_string_container \<noteq> [[]]"
proof -
  let ?short = "long_string_container\<lparr>strings := [[]]\<rparr>"
  have "saveBytecodeToFile LittleEndian long_string_container = saveBytecodeToFile LittleEndian ?short"
    by (simp add: saveBytecodeToFile_def long_string_container_def empty_Bytecode_def
        write_pool_def Let_def)
  moreover have "loadBytecodeFromFile LittleEndian (saveBytecodeToFile LittleEndian ?short) = Inr ?short"
    by (rule round_trip_within_field_widths)
       (simp_all add: long_string_container_def empty_Bytecode_def)
  ultimately show ?thesis
    by (simp add: long_string_container_def)
qed



subsection \<open>The code generator\<close>

lemmas gen_defs = generate_def generateNode_switch_def generateStatement_def generateIfStatement_def
  generateWhileStatement_def generateForStatement_def generateBreakStatement_def
  generateContinueStatement_def generateAssignment_def generateCall_def generateExpression_def
  emit_def emit_update_def and_then_def writeOpCode_def writeByte_def writeShort_def writeInt_def
  writePositionPlaceholder_def updatePositionPlaceholder_def getPosition_def
  addStringConstant_def addNumberConstant_def addGeneralConstant_def addFunctionName_def
  number_find_def initial_generator_def empty_Bytecode_def Let_def

text \<open>
  C3 does not hold of the code. Whatever the loop-context stack holds, a Break node
  makes the generator append the single byte \<open>OP_BREAK\<close> and a Continue node the single
  byte \<open>OP_CONTINUE\<close>, with no jump and no target, and generation succeeds. So a program
  that is a break outside any loop compiles (to the break byte and a halt) instead of
  failing, and the machine stops on that byte as an unknown opcode; inside a while loop
  the break is the same bare byte (offset 8 below), not a jump to the end of the loop.
\<close>

theorem break_and_continue_emit_bare_opcodes:
  "generateNode h (ASTNode NODE_BREAK_STATEMENT v cs) g
     = Inr (g\<lparr>bytecode := (bytecode g)\<lparr>code := code (bytecode g) @ [0x20]\<rparr>\<rparr>)
   \<and> generateNode h (ASTNode NODE_CONTINUE_STATEMENT v cs) g
     = Inr (g\<lparr>bytecode := (bytecode g)\<lparr>code := code (bytecode g) @ [0x21]\<rparr>\<rparr>)
   \<and> generate h break_outside_loop = Inr (empty_Bytecode\<lparr>code := [0x20, 0x11]\<rparr>)
   \<and> execute h (empty_Bytecode\<lparr>code := [0x20, 0x11]\<rparr>) input 1 = Some (Inl (UnknownOpcode 0x20))
   \<and> generate h break_in_while
     = Inr (empty_Bytecode\<lparr>code := [0x0E, 0x00, 0x00, 0x00, 0x00, 0x00, 0x0E, 0x00,
                                      0x20, 0x0B, 0x00, 0x00, 0x00, 0x00, 0x11],
                            constants := [''c'']\<rparr>)"
  by (simp add: break_outside_loop_def break_in_while_def gen_defs execute_def initial_vm_def
      executeInstruction_def)


lemma scenario_A_generated:
  assumes "h_stod h ''1'' = Some n1" and "h_stod h ''2'' = Some n2" and "h_stod h ''3'' = Some n3"
    and "\<not> d_equiv n1 n2" and "\<not> d_equiv n1 n3" and "\<not> d_equiv n2 n3"
  shows "generate h scenario_A =
      Inr \<lparr>code = scenario_A_code, strings = [], numbers = [n1, n2, n3], constants = [''x''],
           functions_pool = [''System.Output.Print'']\<rparr>"
  using assms by (simp add: scenario_A_def scenario_A_code_def gen_defs)

lemma scenario_A_executed:
  "execute h
      \<lparr>code = scenario_A_code, strings = [], numbers = [n1, n2, n3], constants = [''x''],
       functions_pool = [''System.Output.Print'']\<rparr> input 9 =
      Some (Inr \<lparr>stack = [],
                 variables = [''x'' \<mapsto> VNumber (h_add h n1 (h_mul h n2 n3))],
                 programCounter = 22,
                 stdout = h_to_string h (h_add h n1 (h_mul h n2 n3)) @ [CHR 0x0A],
                 stderr = [], stdin = input\<rparr>)"
  by (simp add: execute_def initial_vm_def run_unfold executeInstruction_def exec_defs Let_def
      initBaselib_def print_args_def scenario_A_code_def)

lemma natural_host_reads_digits:
  "h_stod natural_host ''1'' = Some (double_of_nat 1)"
  "h_stod natural_host ''2'' = Some (double_of_nat 2)"
  "h_stod natural_host ''3'' = Some (double_of_nat 3)"
  by (simp_all add: natural_host_def isdigit_def)

lemma small_doubles_differ:
  "\<not> d_equiv (double_of_nat 1) (double_of_nat 2)"
  "\<not> d_equiv (double_of_nat 1) (double_of_nat 3)"
  "\<not> d_equiv (double_of_nat 2) (double_of_nat 3)"
  by (simp_all add: d_equiv_def d_less_def d_is_nan_def d_mag_def d_sign_def double_of_nat_def
      bitlen.simps Let_def)

lemma natural_host_seven:
  "h_add natural_host (double_of_nat 1) (h_mul natural_host (double_of_nat 2) (double_of_nat 3))
     = double_of_nat 7"
  "h_to_string natural_host (double_of_nat 7) = ''7.000000''"
  by (simp_all add: natural_host_def nat_op_def double_of_nat_def bitlen.simps nat_of_double_def
      decimal.simps Let_def)

text \<open>
  C8, as the code has it. On a host that reads the literals 1, 2 and 3 as three doubles
  the number table keeps apart, the tree of \<open>x = 1 + 2 * 3\<close> followed by the call of the
  print built-in on \<open>x\<close> compiles to push(1), push(2), push(3), mul, add, store(x),
  load(x), call(print, 1), halt: the left operand of \<open>+\<close> is pushed before the product is
  computed. The machine runs these nine instructions and prints what \<open>std::to_string\<close>
  gives for the sum, followed by a newline; with IEEE doubles that is \<open>7.000000\<close>.
\<close>

theorem scenario_A_left_operand_first:
  assumes "h_stod h ''1'' = Some n1" and "h_stod h ''2'' = Some n2" and "h_stod h ''3'' = Some n3"
    and "\<not> d_equiv n1 n2" and "\<not> d_equiv n1 n3" and "\<not> d_equiv n2 n3"
  shows "generate h scenario_A =
      Inr \<lparr>code = scenario_A_code, strings = [], numbers = [n1, n2, n3], constants = [''x''],
           functions_pool = [''System.Output.Print'']\<rparr>
    \<and> execute h
      \<lparr>code = scenario_A_code, strings = [], numbers = [n1, n2, n3], constants = [''x''],
       functions_pool = [''System.Output.Print'']\<rparr> input 9 =
      Some (Inr \<lparr>stack = [],
                 variables = [''x'' \<mapsto> VNumber (h_add h n1 (h_mul h n2 n3))],
                 programCounter = 22,
                 stdout = h_to_string h (h_add h n1 (h_mul h n2 n3)) @ [CHR 0x0A],
                 stderr = [], stdin = input\<rparr>)"
  using scenario_A_generated [OF assms] scenario_A_executed by simp

theorem scenario_A_left_operand_first_witness:
  "h_stod natural_host ''1'' = Some (double_of_nat 1)
   \<and> h_stod natural_host ''2'' = Some (double_of_nat 2)
   \<and> h_stod natural_host ''3'' = Some (double_of_nat 3)
   \<and> \<not> d_equiv (double_of_nat 1) (double_of_nat 2)
   \<and> \<not> d_equiv (double_of_nat 1) (double_of_nat 3)
   \<and> \<not> d_equiv (double_of_nat 2) (double_of_nat 3)
   \<and> generate natural_host scenario_A = Inr scenario_A_bytecode
   \<and> execute natural_host scenario_A_bytecode [] 9 =
      Some (Inr \<lparr>stack = [], variables = [''x'' \<mapsto> VNumber (double_of_nat 7)],
                 programCounter = 22, stdout = ''7.000000'' @ [CHR 0x0A],
                 stderr = [], stdin = []\<rparr>)"
  using scenario_A_left_operand_first [OF natural_host_reads_digits small_doubles_differ, of "[]"]
    natural_host_reads_digits small_doubles_differ natural_host_seven
  by (simp add: scenario_A_bytecode_def)

text \<open>
  The claim as stated fails: the first instruction executed pushes 1, not 2, the third
  instruction (offset 6) is a push, not the multiplication, and the text printed is
  \<open>7.000000\<close> and a newline, not \<open>7\<close>.
\<close>

theorem scenario_A_counterexample:
  "generate natural_host scenario_A = Inr scenario_A_bytecode
   \<and> executeInstruction natural_host scenario_A_bytecode (initial_vm [])
       = Inr ((initial_vm [])\<lparr>programCounter := 3, stack := [VNumber (double_of_nat 1)]\<rparr>)
   \<and> code scenario_A_bytecode ! 6 = opcode_byte OP_PUSH_NUM
   \<and> code scenario_A_bytecode ! 6 \<noteq> opcode_byte OP_MUL
   \<and> map_option (map_sum id stdout) (execute natural_host scenario_A_bytecode [] 9)
       = Some (Inr (''7.000000'' @ [CHR 0x0A]))"
proof -
  have g: "generate natural_host scenario_A = Inr scenario_A_bytecode"
    using scenario_A_generated [OF natural_host_reads_digits small_doubles_differ]
    by (simp add: scenario_A_bytecode_def)
  have s: "executeInstruction natural_host scenario_A_bytecode (initial_vm [])
       = Inr ((initial_vm [])\<lparr>programCounter := 3, stack := [VNumber (double_of_nat 1)]\<rparr>)"
    by (simp add: executeInstruction_def scenario_A_bytecode_def scenario_A_code_def initial_vm_def
        exec_PUSH_NUM_def operand16_def push_def Let_def)
  have c: "code scenario_A_bytecode ! 6 = opcode_byte OP_PUSH_NUM"
    "code scenario_A_bytecode ! 6 \<noteq> opcode_byte OP_MUL"
    by (simp_all add: scenario_A_bytecode_def scenario_A_code_def)
  have r: "map_option (map_sum id stdout) (execute natural_host scenario_A_bytecode [] 9)
       = Some (Inr (''7.000000'' @ [CHR 0x0A]))"
    using scenario_A_executed [of natural_host "double_of_nat 1" "double_of_nat 2" "double_of_nat 3" "[]"]
      natural_host_seven
    by (simp add: scenario_A_bytecode_def)
  from g s c r show ?thesis by simp
qed



subsection \<open>Reference edges of garbage-collected values\<close>

text \<open>
  C5 does not hold of the code. Appending to an array, assigning a hash key and
  \<open>addAllReferences\<close> (so also the assignment of a whole value, which ends with it) each
  add exactly one edge to the reference graph, from the container to the value passed,
  whatever that value contains: the branches of \<open>addAllReferences\<close> for arrays and
  hashes are empty. When the array holding an array holding a number is appended to an
  empty array, assigned to a key of an empty hash, or assigned to the array, the graph
  holds the single edge from the container to it, and nothing for the two values inside.
\<close>

theorem containers_link_only_the_assignee:
  "references (snd (gc_push gc this item))
     = (if getType (held this) = ARRAY
        then insert (address this, address item) (references gc) else references gc)
   \<and> references (snd (gc_set gc this key item))
     = (if getType (held this) = HASH
        then insert (address this, address item) (references gc) else references gc)
   \<and> references (addAllReferences gc this item)
     = insert (address this, address item) (references gc)
   \<and> references (snd (gc_assign gc this item))
     = (if address this \<noteq> address item
        then insert (address this, address item)
               (references (slime_gc_clear_references gc (address this)))
        else references gc)
   \<and> references (snd (gc_push empty_collector outer_array nested_item)) = {(1, 2)}
   \<and> references (snd (gc_set empty_collector outer_hash ''k'' nested_item)) = {(3, 2)}
   \<and> references (snd (gc_assign empty_collector outer_array nested_item)) = {(1, 2)}"
  by (cases "held this")
    (simp_all add: gc_push_def gc_set_def gc_assign_def addAllReferences_def
      slime_gc_add_reference_def slime_gc_clear_references_def empty_collector_def
      outer_array_def outer_hash_def nested_item_def Let_def)


end
